theory Spec2Isabelle
  imports Main
begin

section \<open>Errors and provider data (src/api/GitHubAPI.ts)\<close>

text \<open>
  Every \<open>throw new Error(...)\<close> of the sources is a constructor; an error that wraps the
  message of another one carries it as its argument.
\<close>

datatype error =
    FetchFailed string
  | HttpStatus nat string
  | GetUserInfoFailed error
  | GetUserEmailsFailed error
  | KeytarError string
  | FsError string
  | NotSessionData
  | JsTypeError
  | SaveSessionFailed error
  | RefreshUserInfoFailed error
  | TokenErrorResponse string string
  | NoAccessToken
  | ExchangeFailed error

record GitHubUser =
  user_id :: int
  login :: string
  name :: "string option"
  email :: "string option"
  avatar_url :: string
  bio :: "string option"
  public_repos :: int
  followers :: int
  following :: int
  created_at :: string

text \<open>\<open>GitHubUser & { primaryEmail?: string }\<close>; an absent or undefined field is \<open>None\<close>.\<close>

record profile = GitHubUser +
  primaryEmail :: "string option"

text \<open>An entry of the e-mail list; its field \<open>email\<close> is \<open>address\<close> here.\<close>

record GitHubEmail =
  address :: string
  primary :: bool
  verified :: bool
  visibility :: "string option"

text \<open>
  What \<open>fetch\<close> gives for one request: it throws, or answers with a status that is not
  2xx and a body text, or answers 2xx with the decoded JSON body.
\<close>

datatype 'a response = FetchThrows string | NotOk nat string | Ok 'a

text \<open>The JSON body of the token endpoint; a field that is absent is \<open>None\<close>.\<close>

record TokenResponse =
  tr_access_token :: "string option"
  tr_token_type :: string
  tr_scope :: string
  tr_error :: "string option"
  tr_error_description :: "string option"

text \<open>
  The provider, as what it answers: to a code at the token endpoint, to a bearer token at
  the two API endpoints.
\<close>

record network =
  tokenEndpoint :: "string \<Rightarrow> TokenResponse response"
  userEndpoint :: "string \<Rightarrow> GitHubUser response"
  emailsEndpoint :: "string \<Rightarrow> GitHubEmail list response"

definition getUserInfo :: "network \<Rightarrow> string \<Rightarrow> error + GitHubUser" where
  "getUserInfo net accessToken =
     (case userEndpoint net accessToken of
        FetchThrows msg \<Rightarrow> Inl (GetUserInfoFailed (FetchFailed msg))
      | NotOk status errorText \<Rightarrow> Inl (GetUserInfoFailed (HttpStatus status errorText))
      | Ok userData \<Rightarrow> Inr userData)"

definition getUserEmails :: "network \<Rightarrow> string \<Rightarrow> error + GitHubEmail list" where
  "getUserEmails net accessToken =
     (case emailsEndpoint net accessToken of
        FetchThrows msg \<Rightarrow> Inl (GetUserEmailsFailed (FetchFailed msg))
      | NotOk status errorText \<Rightarrow> Inl (GetUserEmailsFailed (HttpStatus status errorText))
      | Ok emails \<Rightarrow> Inr emails)"

text \<open>\<open>emails.find(email => email.primary && email.verified)\<close>, then its address or null.\<close>

definition getPrimaryEmail :: "network \<Rightarrow> string \<Rightarrow> string option" where
  "getPrimaryEmail net accessToken =
     (case getUserEmails net accessToken of
        Inl e \<Rightarrow> None
      | Inr emails \<Rightarrow>
          (case find (\<lambda>e. primary e \<and> verified e) emails of
             None \<Rightarrow> None
           | Some found \<Rightarrow> Some (address found)))"

text \<open>JavaScript truthiness of a \<open>string | null | undefined\<close> value.\<close>

fun truthy :: "string option \<Rightarrow> bool" where
  "truthy None = False"
| "truthy (Some s) = (s \<noteq> [])"

text \<open>\<open>v || undefined\<close> on such a value.\<close>

definition orUndefined :: "string option \<Rightarrow> string option" where
  "orUndefined v = (if truthy v then v else None)"

text \<open>\<open>v || ''\<close>\<close>

definition orEmpty :: "string option \<Rightarrow> string" where
  "orEmpty v = (case v of None \<Rightarrow> [] | Some s \<Rightarrow> s)"

definition exchangeCodeForToken :: "network \<Rightarrow> string \<Rightarrow> error + TokenResponse" where
  "exchangeCodeForToken net authCode =
     (case tokenEndpoint net authCode of
        FetchThrows msg \<Rightarrow> Inl (ExchangeFailed (FetchFailed msg))
      | NotOk status statusText \<Rightarrow> Inl (ExchangeFailed (HttpStatus status statusText))
      | Ok data \<Rightarrow>
          (case orUndefined (tr_error data) of
             Some err \<Rightarrow>
               Inl (ExchangeFailed (TokenErrorResponse err (orEmpty (tr_error_description data))))
           | None \<Rightarrow>
               (case orUndefined (tr_access_token data) of
                  None \<Rightarrow> Inl (ExchangeFailed NoAccessToken)
                | Some t \<Rightarrow> Inr data)))"

text \<open>\<open>{ ...userInfo, primaryEmail: p }\<close>\<close>

definition withPrimaryEmail :: "GitHubUser \<Rightarrow> string option \<Rightarrow> profile" where
  "withPrimaryEmail u p = GitHubUser.extend u (profile.fields p)"

definition getCompleteUserProfile :: "network \<Rightarrow> string \<Rightarrow> error + profile" where
  "getCompleteUserProfile net accessToken =
     (case getUserInfo net accessToken of
        Inl e \<Rightarrow> Inl e
      | Inr userInfo \<Rightarrow>
          (if \<not> truthy (email userInfo)
           then Inr (withPrimaryEmail userInfo (orUndefined (getPrimaryEmail net accessToken)))
           else Inr (withPrimaryEmail userInfo None)))"

section \<open>Sessions and what the store holds (src/oauth/UserSessionManager.ts)\<close>

record token =
  access_token :: string
  token_type :: string
  scope :: string

record UserSession =
  user :: profile
  token :: token
  createdAt :: int
  lastValidatedAt :: int
  expiresAt :: "int option"

text \<open>
  The object literal \<open>sessionData\<close> that \<open>saveSession\<close> and \<open>updateSessionData\<close> build, as
  the document \<open>JSON.stringify\<close> writes: \<open>token\<close> holds \<open>token_type\<close> and \<open>scope\<close> only, and
  a field whose value is \<open>undefined\<close> is left out (\<open>None\<close>). \<open>lastValidatedAt\<close> is optional
  in a stored document because \<open>loadSession\<close> provides for its absence.
\<close>

record tokenMeta =
  meta_token_type :: string
  meta_scope :: string

record sessionData =
  sd_user :: profile
  sd_token :: tokenMeta
  sd_createdAt :: int
  sd_lastValidatedAt :: "int option"
  sd_expiresAt :: "int option"

text \<open>
  A stored string is of one of two kinds. \<open>JsonText d\<close> is a text that \<open>JSON.parse\<close> reads
  as the session document \<open>d\<close>, whoever wrote it; \<open>saveSession\<close> writes
  \<open>JSON.stringify(sessionData)\<close>, which is such a text. \<open>Raw s\<close> is any other text \<open>s\<close>: on
  it \<open>JSON.parse\<close> throws a SyntaxError, or returns a value that is no session document, and
  then the read \<open>sessionData.token.token_type\<close> that follows it in \<open>loadSession\<close> throws a
  TypeError. Either way the \<open>try\<close> of \<open>loadSession\<close> is left through its \<open>catch\<close> before
  anything is assigned.
\<close>

datatype stored = Raw string | JsonText sessionData

text \<open>
  \<open>JSON.parse(sessionDataStr)\<close> with the reads of the document's fields: the document, or
  the error thrown by one of the two.
\<close>

fun JSON_parse :: "stored \<Rightarrow> error + sessionData" where
  "JSON_parse (Raw s) = Inl NotSessionData"
| "JSON_parse (JsonText d) = Inr d"

text \<open>
  A \<open>string | null\<close> read from the store under the test \<open>if (!v) ... else ...\<close>: \<open>None\<close>
  when \<open>v\<close> is falsy (null or the empty string), the string otherwise.
\<close>

fun present :: "stored option \<Rightarrow> stored option" where
  "present None = None"
| "present (Some (Raw s)) = (if s = [] then None else Some (Raw s))"
| "present (Some (JsonText d)) = Some (JsonText d)"

definition SERVICE_NAME :: string where "SERVICE_NAME = ''ElectronOAuthApp''"
definition TOKEN_KEY :: string where "TOKEN_KEY = ''github_access_token''"
definition USER_KEY :: string where "USER_KEY = ''github_user_data''"

definition AUTO_REFRESH_INTERVAL :: int where "AUTO_REFRESH_INTERVAL = 30 * 60 * 1000"
definition TOKEN_VALIDATION_INTERVAL :: int where "TOKEN_VALIDATION_INTERVAL = 60 * 60 * 1000"
definition MAX_RETRY_ATTEMPTS :: nat where "MAX_RETRY_ATTEMPTS = 3"

subsection \<open>The keytar credential vault\<close>

text \<open>
  The vault maps (service, account) to a password. Each of its three calls may throw; which
  accounts fail is part of the vault, so that a store failure is an input of the model.
\<close>

record keychain =
  entries :: "string \<times> string \<Rightarrow> stored option"
  setFails :: "string \<Rightarrow> bool"
  getFails :: "string \<Rightarrow> bool"
  deleteFails :: "string \<Rightarrow> bool"

text \<open>
  \<open>keytar.setPassword\<close> refuses an empty password (\<open>Password is required.\<close>) before it
  reaches the vault.
\<close>

definition setPassword :: "keychain \<Rightarrow> string \<Rightarrow> string \<Rightarrow> stored \<Rightarrow> error + keychain" where
  "setPassword kc service account password =
     (if password = Raw [] then Inl (KeytarError ''Password is required.'')
      else if setFails kc account then Inl (KeytarError account)
      else Inr (kc\<lparr>entries := (entries kc)((service, account) \<mapsto> password)\<rparr>))"

definition getPassword :: "keychain \<Rightarrow> string \<Rightarrow> string \<Rightarrow> error + stored option" where
  "getPassword kc service account =
     (if getFails kc account then Inl (KeytarError account)
      else Inr (entries kc (service, account)))"

definition deletePassword :: "keychain \<Rightarrow> string \<Rightarrow> string \<Rightarrow> error + keychain" where
  "deletePassword kc service account =
     (if deleteFails kc account then Inl (KeytarError account)
      else Inr (kc\<lparr>entries := (entries kc)((service, account) := None)\<rparr>))"

section \<open>The session manager, keytar variant\<close>

datatype event =
    SessionExpired
  | SessionRefreshed UserSession
  | SessionError error
  | AutoLogout

text \<open>Which of the optional callbacks of \<open>SessionEvents\<close> are registered.\<close>

record SessionEvents =
  onSessionExpired :: bool
  onSessionRefreshed :: bool
  onSessionError :: bool
  onAutoLogout :: bool

text \<open>
  The fields of the class. A timer field holds the handle \<open>setInterval\<close> returned;
  \<open>liveIntervals\<close> are the handles not yet cleared and \<open>nextHandle\<close> the next one to be
  handed out. \<open>fired\<close> records the callbacks invoked, oldest first.
\<close>

record manager =
  currentSession :: "UserSession option"
  refreshTimer :: "nat option"
  validationTimer :: "nat option"
  eventCallbacks :: SessionEvents
  isRefreshing :: bool
  retryCount :: nat
  liveIntervals :: "nat list"
  nextHandle :: nat
  fired :: "event list"

definition newManager :: manager where
  "newManager =
     \<lparr>currentSession = None, refreshTimer = None, validationTimer = None,
      eventCallbacks = \<lparr>onSessionExpired = False, onSessionRefreshed = False,
                        onSessionError = False, onAutoLogout = False\<rparr>,
      isRefreshing = False, retryCount = 0, liveIntervals = [], nextHandle = 0, fired = []\<rparr>"

text \<open>\<open>if (this.eventCallbacks.onX) this.eventCallbacks.onX(...)\<close>\<close>

definition fire :: "(SessionEvents \<Rightarrow> bool) \<Rightarrow> event \<Rightarrow> manager \<Rightarrow> manager" where
  "fire registered ev m =
     (if registered (eventCallbacks m) then m\<lparr>fired := fired m @ [ev]\<rparr> else m)"

definition stopAutoMaintenance :: "manager \<Rightarrow> manager" where
  "stopAutoMaintenance m =
     m\<lparr>liveIntervals :=
          filter (\<lambda>h. Some h \<noteq> validationTimer m \<and> Some h \<noteq> refreshTimer m) (liveIntervals m),
       validationTimer := None,
       refreshTimer := None\<rparr>"

definition startAutoMaintenance :: "manager \<Rightarrow> manager" where
  "startAutoMaintenance m =
     (let m1 = stopAutoMaintenance m;
          v = nextHandle m1;
          r = Suc v
      in m1\<lparr>validationTimer := Some v, refreshTimer := Some r,
            liveIntervals := liveIntervals m1 @ [v, r], nextHandle := Suc r\<rparr>)"

definition sessionDataOf :: "UserSession \<Rightarrow> sessionData" where
  "sessionDataOf session =
     \<lparr>sd_user = user session,
      sd_token = \<lparr>meta_token_type = token_type (token session),
                  meta_scope = scope (token session)\<rparr>,
      sd_createdAt = createdAt session,
      sd_lastValidatedAt = Some (lastValidatedAt session),
      sd_expiresAt = expiresAt session\<rparr>"

definition saveSession ::
  "UserSession \<Rightarrow> manager \<Rightarrow> keychain \<Rightarrow> (error + unit) \<times> manager \<times> keychain" where
  "saveSession session m kc =
     (case setPassword kc SERVICE_NAME TOKEN_KEY (Raw (access_token (token session))) of
        Inl e \<Rightarrow> (Inl (SaveSessionFailed e), m, kc)
      | Inr kc1 \<Rightarrow>
          (case setPassword kc1 SERVICE_NAME USER_KEY (JsonText (sessionDataOf session)) of
             Inl e \<Rightarrow> (Inl (SaveSessionFailed e), m, kc1)
           | Inr kc2 \<Rightarrow>
               (Inr (), startAutoMaintenance (m\<lparr>currentSession := Some session\<rparr>), kc2)))"

text \<open>The error of \<open>setPassword\<close> is caught and logged: the vault is left as it was.\<close>

definition updateSessionData :: "UserSession \<Rightarrow> keychain \<Rightarrow> keychain" where
  "updateSessionData session kc =
     (case setPassword kc SERVICE_NAME USER_KEY (JsonText (sessionDataOf session)) of
        Inl e \<Rightarrow> kc
      | Inr kc1 \<Rightarrow> kc1)"

text \<open>
  Both branches of the \<open>try\<close> end with the same two assignments; the second deletion is
  reached only when the first did not throw.
\<close>

definition clearSession :: "manager \<Rightarrow> keychain \<Rightarrow> manager \<times> keychain" where
  "clearSession m kc =
     (let m1 = stopAutoMaintenance m in
      case deletePassword kc SERVICE_NAME TOKEN_KEY of
        Inl e \<Rightarrow> (m1\<lparr>currentSession := None, retryCount := 0\<rparr>, kc)
      | Inr kc1 \<Rightarrow>
          (case deletePassword kc1 SERVICE_NAME USER_KEY of
             Inl e \<Rightarrow> (m1\<lparr>currentSession := None, retryCount := 0\<rparr>, kc1)
           | Inr kc2 \<Rightarrow> (m1\<lparr>currentSession := None, retryCount := 0\<rparr>, kc2)))"

text \<open>
  \<open>sessionData.lastValidatedAt || sessionData.createdAt\<close>: an absent field and the number 0
  are both falsy.
\<close>

definition lastValidatedOr :: "int option \<Rightarrow> int \<Rightarrow> int" where
  "lastValidatedOr v c = (case v of None \<Rightarrow> c | Some t \<Rightarrow> if t = 0 then c else t)"

definition sessionOf :: "string \<Rightarrow> sessionData \<Rightarrow> UserSession" where
  "sessionOf accessToken d =
     \<lparr>user = sd_user d,
      token = \<lparr>access_token = accessToken,
               token_type = meta_token_type (sd_token d),
               scope = meta_scope (sd_token d)\<rparr>,
      createdAt = sd_createdAt d,
      lastValidatedAt = lastValidatedOr (sd_lastValidatedAt d) (sd_createdAt d),
      expiresAt = sd_expiresAt d\<rparr>"

text \<open>
  The token slot read back as the access token string. The class writes that slot with the
  raw token only; a JSON document found there is taken as corrupt data.
\<close>

fun rawText :: "stored \<Rightarrow> string option" where
  "rawText (Raw s) = Some s"
| "rawText (JsonText d) = None"

text \<open>
  \<open>loadSession\<close>. Anything thrown inside the \<open>try\<close> (a vault read, the orphan deletion,
  \<open>JSON.parse\<close>) ends in \<open>clearSession\<close> and null.
\<close>

definition loadSession ::
  "manager \<Rightarrow> keychain \<Rightarrow> UserSession option \<times> manager \<times> keychain" where
  "loadSession m kc =
     (let failed = (let (m1, kc1) = clearSession m kc in (None, m1, kc1)) in
      case getPassword kc SERVICE_NAME TOKEN_KEY of
        Inl e \<Rightarrow> failed
      | Inr tokenStr \<Rightarrow>
          (case present tokenStr of
             None \<Rightarrow> (None, m, kc)
           | Some accessToken \<Rightarrow>
               (case getPassword kc SERVICE_NAME USER_KEY of
                  Inl e \<Rightarrow> failed
                | Inr dataStr \<Rightarrow>
                    (case present dataStr of
                       None \<Rightarrow>
                         (case deletePassword kc SERVICE_NAME TOKEN_KEY of
                            Inl e \<Rightarrow> failed
                          | Inr kc1 \<Rightarrow> (None, m, kc1))
                     | Some sessionDataStr \<Rightarrow>
                         (case JSON_parse sessionDataStr of
                            Inl e \<Rightarrow> failed
                          | Inr d \<Rightarrow>
                              (case rawText accessToken of
                                 None \<Rightarrow> failed
                               | Some tok \<Rightarrow>
                                   (let session = sessionOf tok d;
                                        m1 = m\<lparr>currentSession := Some session, retryCount := 0\<rparr>
                                    in (Some session, startAutoMaintenance m1, kc))))))))"



text \<open>
  \<open>refreshUserInfo\<close> from the point where \<open>getCompleteUserProfile\<close> has answered.
  \<open>{ ...this.currentSession, user, lastValidatedAt }\<close> reads the field again at that point:
  when it has become null in between, the object has no \<open>token\<close> and \<open>saveSession\<close> throws
  a TypeError on \<open>session.token.access_token\<close>, inside its own \<open>try\<close>.
\<close>

definition refreshUserInfo_resume ::
  "(error + profile) \<Rightarrow> int \<Rightarrow> manager \<Rightarrow> keychain
     \<Rightarrow> (error + UserSession option) \<times> manager \<times> keychain" where
  "refreshUserInfo_resume answer now m kc =
     (case answer of
        Inl e \<Rightarrow> (Inl (RefreshUserInfoFailed e), m, kc)
      | Inr userProfile \<Rightarrow>
          (case currentSession m of
             None \<Rightarrow> (Inl (RefreshUserInfoFailed (SaveSessionFailed JsTypeError)), m, kc)
           | Some cs \<Rightarrow>
               (let updatedSession = cs\<lparr>user := userProfile, lastValidatedAt := now\<rparr> in
                case saveSession updatedSession m kc of
                  (Inl e, m1, kc1) \<Rightarrow> (Inl (RefreshUserInfoFailed e), m1, kc1)
                | (Inr u, m1, kc1) \<Rightarrow> (Inr (Some updatedSession), m1, kc1))))"

definition refreshUserInfo ::
  "int \<Rightarrow> network \<Rightarrow> manager \<Rightarrow> keychain
     \<Rightarrow> (error + UserSession option) \<times> manager \<times> keychain" where
  "refreshUserInfo now net m kc =
     (case currentSession m of
        None \<Rightarrow> (Inr None, m, kc)
      | Some cs \<Rightarrow>
          refreshUserInfo_resume (getCompleteUserProfile net (access_token (token cs))) now m kc)"

definition handleSessionError :: "error \<Rightarrow> manager \<Rightarrow> keychain \<Rightarrow> manager \<times> keychain" where
  "handleSessionError e m kc =
     (let m1 = m\<lparr>retryCount := Suc (retryCount m)\<rparr> in
      if retryCount m1 \<ge> MAX_RETRY_ATTEMPTS
      then (let (m2, kc2) = clearSession m1 kc in (fire onAutoLogout AutoLogout m2, kc2))
      else (fire onSessionError (SessionError e) m1, kc))"

text \<open>
  \<open>performAutoRefresh\<close> once \<open>refreshUserInfo\<close> has returned or thrown: the callbacks, the
  \<open>catch\<close> and the \<open>finally\<close>. \<open>handleSessionError\<close> is called without \<open>await\<close>; it is run
  to its end here, before the \<open>finally\<close> block.
\<close>

definition performAutoRefresh_finish ::
  "(error + UserSession option) \<times> manager \<times> keychain \<Rightarrow> manager \<times> keychain" where
  "performAutoRefresh_finish r =
     (case r of
        (Inr (Some refreshedSession), m1, kc1) \<Rightarrow>
          ((fire onSessionRefreshed (SessionRefreshed refreshedSession) m1)\<lparr>isRefreshing := False\<rparr>, kc1)
      | (Inr None, m1, kc1) \<Rightarrow> (m1\<lparr>isRefreshing := False\<rparr>, kc1)
      | (Inl e, m1, kc1) \<Rightarrow>
          (let (m2, kc2) = handleSessionError e m1 kc1 in (m2\<lparr>isRefreshing := False\<rparr>, kc2)))"

definition performAutoRefresh ::
  "int \<Rightarrow> network \<Rightarrow> manager \<Rightarrow> keychain \<Rightarrow> manager \<times> keychain" where
  "performAutoRefresh now net m kc =
     (if currentSession m = None \<or> isRefreshing m then (m, kc)
      else performAutoRefresh_finish (refreshUserInfo now net (m\<lparr>isRefreshing := True\<rparr>) kc))"

definition manualRefresh ::
  "int \<Rightarrow> network \<Rightarrow> manager \<Rightarrow> keychain
     \<Rightarrow> (error + UserSession option) \<times> manager \<times> keychain" where
  "manualRefresh now net m kc =
     (if isRefreshing m then (Inr (currentSession m), m, kc)
      else refreshUserInfo now net m kc)"

definition createSession :: "profile \<Rightarrow> token \<Rightarrow> int \<Rightarrow> UserSession" where
  "createSession u t now =
     \<lparr>user = u, token = t, createdAt = now, lastValidatedAt = now, expiresAt = None\<rparr>"

subsection \<open>Refreshes as they interleave on the event loop\<close>

text \<open>
  A refresh gives the event loop back at \<open>await getCompleteUserProfile(...)\<close>. The run-time
  state keeps, besides the manager and the vault, the refresh network calls that were sent
  and have not answered yet, each with who sent it. One step is what runs without a break:
  the start of a refresh up to that \<open>await\<close>, or its rest once the answer is there.
\<close>

datatype caller = Timer | Manual

record runtime =
  mgr :: manager
  vault :: keychain
  inFlight :: "caller list"

text \<open>\<open>refreshUserInfo\<close> up to its \<open>await\<close>: the call is sent when there is a session.\<close>

definition refreshUserInfo_begin :: "caller \<Rightarrow> runtime \<Rightarrow> runtime" where
  "refreshUserInfo_begin c rt =
     (case currentSession (mgr rt) of
        None \<Rightarrow> rt
      | Some cs \<Rightarrow> rt\<lparr>inFlight := inFlight rt @ [c]\<rparr>)"

definition performAutoRefresh_begin :: "runtime \<Rightarrow> runtime" where
  "performAutoRefresh_begin rt =
     (if currentSession (mgr rt) = None \<or> isRefreshing (mgr rt) then rt
      else refreshUserInfo_begin Timer (rt\<lparr>mgr := (mgr rt)\<lparr>isRefreshing := True\<rparr>\<rparr>))"

definition manualRefresh_begin :: "runtime \<Rightarrow> runtime" where
  "manualRefresh_begin rt =
     (if isRefreshing (mgr rt) then rt else refreshUserInfo_begin Manual rt)"

text \<open>The answer to the call of \<open>c\<close> arrives and the rest of that refresh runs.\<close>

definition refresh_resume :: "caller \<Rightarrow> (error + profile) \<Rightarrow> int \<Rightarrow> runtime \<Rightarrow> runtime" where
  "refresh_resume c answer now rt =
     (if c \<notin> set (inFlight rt) then rt
      else
        (let r = refreshUserInfo_resume answer now (mgr rt) (vault rt);
             (m1, kc1) = (case c of
                            Timer \<Rightarrow> performAutoRefresh_finish r
                          | Manual \<Rightarrow> snd r)
         in rt\<lparr>mgr := m1, vault := kc1, inFlight := remove1 c (inFlight rt)\<rparr>))"

section \<open>The session manager, file-store variant\<close>

text \<open>
  The files of the storage directory, by key. \<open>setStorageItem\<close> lets an error of the file
  system through; \<open>getStorageItem\<close> and \<open>deleteStorageItem\<close> catch theirs.
\<close>

record fileStore =
  files :: "string \<Rightarrow> stored option"
  writeFails :: "string \<Rightarrow> bool"
  readFails :: "string \<Rightarrow> bool"
  unlinkFails :: "string \<Rightarrow> bool"

definition setStorageItem :: "fileStore \<Rightarrow> string \<Rightarrow> stored \<Rightarrow> error + fileStore" where
  "setStorageItem fs key v =
     (if writeFails fs key then Inl (FsError key)
      else Inr (fs\<lparr>files := (files fs)(key \<mapsto> v)\<rparr>))"

definition getStorageItem :: "fileStore \<Rightarrow> string \<Rightarrow> stored option" where
  "getStorageItem fs key = (if readFails fs key then None else files fs key)"

definition deleteStorageItem :: "fileStore \<Rightarrow> string \<Rightarrow> fileStore" where
  "deleteStorageItem fs key =
     (if unlinkFails fs key then fs else fs\<lparr>files := (files fs)(key := None)\<rparr>)"

text \<open>This variant has two callbacks, and neither \<open>isRefreshing\<close> nor \<open>retryCount\<close>.\<close>

record fileSessionEvents =
  f_onSessionExpired :: bool
  f_onSessionRefreshed :: bool

record fileManager =
  f_currentSession :: "UserSession option"
  f_refreshTimer :: "nat option"
  f_validationTimer :: "nat option"
  f_eventCallbacks :: fileSessionEvents
  f_liveIntervals :: "nat list"
  f_nextHandle :: nat
  f_fired :: "event list"

definition newFileManager :: fileManager where
  "newFileManager =
     \<lparr>f_currentSession = None, f_refreshTimer = None, f_validationTimer = None,
      f_eventCallbacks = \<lparr>f_onSessionExpired = False, f_onSessionRefreshed = False\<rparr>,
      f_liveIntervals = [], f_nextHandle = 0, f_fired = []\<rparr>"

definition fire_file :: "(fileSessionEvents \<Rightarrow> bool) \<Rightarrow> event \<Rightarrow> fileManager \<Rightarrow> fileManager" where
  "fire_file registered ev m =
     (if registered (f_eventCallbacks m) then m\<lparr>f_fired := f_fired m @ [ev]\<rparr> else m)"

definition stopAutoMaintenance_file :: "fileManager \<Rightarrow> fileManager" where
  "stopAutoMaintenance_file m =
     m\<lparr>f_liveIntervals :=
          filter (\<lambda>h. Some h \<noteq> f_validationTimer m \<and> Some h \<noteq> f_refreshTimer m)
            (f_liveIntervals m),
       f_validationTimer := None,
       f_refreshTimer := None\<rparr>"

definition startAutoMaintenance_file :: "fileManager \<Rightarrow> fileManager" where
  "startAutoMaintenance_file m =
     (let m1 = stopAutoMaintenance_file m;
          v = f_nextHandle m1;
          r = Suc v
      in m1\<lparr>f_validationTimer := Some v, f_refreshTimer := Some r,
            f_liveIntervals := f_liveIntervals m1 @ [v, r], f_nextHandle := Suc r\<rparr>)"

text \<open>The session of this variant has no \<open>expiresAt\<close>, and its document has none.\<close>

definition sessionDataOf_file :: "UserSession \<Rightarrow> sessionData" where
  "sessionDataOf_file session =
     \<lparr>sd_user = user session,
      sd_token = \<lparr>meta_token_type = token_type (token session),
                  meta_scope = scope (token session)\<rparr>,
      sd_createdAt = createdAt session,
      sd_lastValidatedAt = Some (lastValidatedAt session),
      sd_expiresAt = None\<rparr>"

definition saveSession_file ::
  "UserSession \<Rightarrow> fileManager \<Rightarrow> fileStore \<Rightarrow> (error + unit) \<times> fileManager \<times> fileStore" where
  "saveSession_file session m fs =
     (case setStorageItem fs TOKEN_KEY (Raw (access_token (token session))) of
        Inl e \<Rightarrow> (Inl (SaveSessionFailed e), m, fs)
      | Inr fs1 \<Rightarrow>
          (case setStorageItem fs1 USER_KEY (JsonText (sessionDataOf_file session)) of
             Inl e \<Rightarrow> (Inl (SaveSessionFailed e), m, fs1)
           | Inr fs2 \<Rightarrow>
               (Inr (), startAutoMaintenance_file (m\<lparr>f_currentSession := Some session\<rparr>), fs2)))"

definition updateSessionData_file :: "fileManager \<Rightarrow> fileStore \<Rightarrow> fileStore" where
  "updateSessionData_file m fs =
     (case f_currentSession m of
        None \<Rightarrow> fs
      | Some cs \<Rightarrow>
          (case setStorageItem fs USER_KEY (JsonText (sessionDataOf_file cs)) of
             Inl e \<Rightarrow> fs
           | Inr fs1 \<Rightarrow> fs1))"

text \<open>
  Nothing in the \<open>try\<close> can throw (\<open>deleteStorageItem\<close> catches its own errors), so the
  \<open>catch\<close>, which only logs, is never entered.
\<close>

definition clearSession_file :: "fileManager \<Rightarrow> fileStore \<Rightarrow> fileManager \<times> fileStore" where
  "clearSession_file m fs =
     (let m1 = stopAutoMaintenance_file m;
          fs1 = deleteStorageItem fs TOKEN_KEY;
          fs2 = deleteStorageItem fs1 USER_KEY
      in (m1\<lparr>f_currentSession := None\<rparr>, fs2))"

definition sessionOf_file :: "string \<Rightarrow> sessionData \<Rightarrow> UserSession" where
  "sessionOf_file accessToken d =
     \<lparr>user = sd_user d,
      token = \<lparr>access_token = accessToken,
               token_type = meta_token_type (sd_token d),
               scope = meta_scope (sd_token d)\<rparr>,
      createdAt = sd_createdAt d,
      lastValidatedAt = lastValidatedOr (sd_lastValidatedAt d) (sd_createdAt d),
      expiresAt = None\<rparr>"

definition loadSession_file ::
  "fileManager \<Rightarrow> fileStore \<Rightarrow> UserSession option \<times> fileManager \<times> fileStore" where
  "loadSession_file m fs =
     (let failed = (let (m1, fs1) = clearSession_file m fs in (None, m1, fs1)) in
      case present (getStorageItem fs TOKEN_KEY) of
        None \<Rightarrow> (None, m, fs)
      | Some accessToken \<Rightarrow>
          (case present (getStorageItem fs USER_KEY) of
             None \<Rightarrow> (None, m, deleteStorageItem fs TOKEN_KEY)
           | Some sessionDataStr \<Rightarrow>
               (case JSON_parse sessionDataStr of
                  Inl e \<Rightarrow> failed
                | Inr d \<Rightarrow>
                    (case rawText accessToken of
                       None \<Rightarrow> failed
                     | Some tok \<Rightarrow>
                         (let session = sessionOf_file tok d
                          in (Some session,
                              startAutoMaintenance_file (m\<lparr>f_currentSession := Some session\<rparr>),
                              fs))))))"

definition validateSession_file ::
  "int \<Rightarrow> network \<Rightarrow> fileManager \<Rightarrow> fileStore \<Rightarrow> bool \<times> fileManager \<times> fileStore" where
  "validateSession_file now net m fs =
     (case f_currentSession m of
        None \<Rightarrow> (False, m, fs)
      | Some cs \<Rightarrow>
          (case getUserInfo net (access_token (token cs)) of
             Inr u \<Rightarrow>
               (let m1 = m\<lparr>f_currentSession := Some (cs\<lparr>lastValidatedAt := now\<rparr>)\<rparr>
                in (True, m1, updateSessionData_file m1 fs))
           | Inl e \<Rightarrow> (False, m, fs)))"

text \<open>The \<open>catch\<close> of \<open>refreshUserInfo\<close>: clear the session, tell the listener, return null.\<close>

definition refreshFailed_file ::
  "fileManager \<Rightarrow> fileStore \<Rightarrow> UserSession option \<times> fileManager \<times> fileStore" where
  "refreshFailed_file m fs =
     (let (m1, fs1) = clearSession_file m fs
      in (None, fire_file f_onSessionExpired SessionExpired m1, fs1))"

definition refreshUserInfo_file ::
  "int \<Rightarrow> network \<Rightarrow> fileManager \<Rightarrow> fileStore \<Rightarrow> UserSession option \<times> fileManager \<times> fileStore" where
  "refreshUserInfo_file now net m fs =
     (case f_currentSession m of
        None \<Rightarrow> (None, m, fs)
      | Some cs \<Rightarrow>
          (case getCompleteUserProfile net (access_token (token cs)) of
             Inl e \<Rightarrow> refreshFailed_file m fs
           | Inr userProfile \<Rightarrow>
               (let updatedSession = cs\<lparr>user := userProfile, lastValidatedAt := now\<rparr> in
                case saveSession_file updatedSession m fs of
                  (Inl e, m1, fs1) \<Rightarrow> refreshFailed_file m1 fs1
                | (Inr u, m1, fs1) \<Rightarrow>
                    (Some updatedSession,
                     fire_file f_onSessionRefreshed (SessionRefreshed updatedSession) m1,
                     fs1))))"

text \<open>The two interval callbacks that \<open>startAutoMaintenance\<close> installs.\<close>

definition validationTick_file ::
  "int \<Rightarrow> network \<Rightarrow> fileManager \<Rightarrow> fileStore \<Rightarrow> fileManager \<times> fileStore" where
  "validationTick_file now net m fs =
     (case f_currentSession m of
        None \<Rightarrow> (m, fs)
      | Some cs \<Rightarrow>
          (if now - lastValidatedAt cs > TOKEN_VALIDATION_INTERVAL
           then (let (isValid, m1, fs1) = validateSession_file now net m fs in
                 if \<not> isValid
                 then (let (m2, fs2) = clearSession_file m1 fs1
                       in (fire_file f_onSessionExpired SessionExpired m2, fs2))
                 else (m1, fs1))
           else (m, fs)))"

definition refreshTick_file ::
  "int \<Rightarrow> network \<Rightarrow> fileManager \<Rightarrow> fileStore \<Rightarrow> fileManager \<times> fileStore" where
  "refreshTick_file now net m fs =
     (case f_currentSession m of
        None \<Rightarrow> (m, fs)
      | Some cs \<Rightarrow> snd (refreshUserInfo_file now net m fs))"

section \<open>The authorization flow (src/oauth/OAuthManager.ts)\<close>

text \<open>
  Of \<open>new URL(redirectUri)\<close> the path is kept, which the server compares requests with.
  The port plays no part here: every server of a manager binds the same one.
\<close>

record OAuthConfig =
  clientId :: string
  clientSecret :: string
  authUrl :: string
  redirectUri :: string
  redirectPathname :: string
  scopes :: "string list"

text \<open>The authorization URL, as its endpoint and the query parameters it carries.\<close>

record authorizationUrl =
  endpoint :: string
  p_client_id :: string
  p_redirect_uri :: string
  p_scope :: string
  p_state :: string
  p_response_type :: string

text \<open>\<open>scopes.join(' ')\<close>\<close>

fun join :: "string list \<Rightarrow> string" where
  "join [] = []"
| "join [x] = x"
| "join (x # y # ys) = x @ '' '' @ join (y # ys)"

definition buildAuthUrl :: "OAuthConfig \<Rightarrow> string \<Rightarrow> authorizationUrl" where
  "buildAuthUrl config st =
     \<lparr>endpoint = authUrl config,
      p_client_id = clientId config,
      p_redirect_uri = redirectUri config,
      p_scope = join (scopes config),
      p_state = st,
      p_response_type = ''code''\<rparr>"

datatype authError =
    ProviderError string "string option"
  | StateMismatch
  | MissingCode
  | AuthTimeout
  | AuthCancelled
  | Superseded
  | ServerFailed string

record AuthResult =
  success :: bool
  code :: "string option"
  state :: "string option"

text \<open>What \<open>url.searchParams.get\<close> gives for the four parameters: a string or null.\<close>

record callbackParams =
  q_code :: "string option"
  q_state :: "string option"
  q_error :: "string option"
  q_error_description :: "string option"

datatype page =
    SuccessPage
  | ErrorPage string "string option"
  | BadRequest
  | NotFound

text \<open>
  The decisions of \<open>handleCallback\<close>, in its order: the page sent to the browser and how
  the promise of \<open>startCallbackServer\<close> is settled. The two descriptions on the error
  pages are Chinese sentences in the source and are given in English here. Reading the
  parameters and writing a page do not throw, so the \<open>catch\<close> of \<open>handleCallback\<close> has
  no case.
\<close>

definition callbackOutcome ::
  "callbackParams \<Rightarrow> string \<Rightarrow> page \<times> (authError + AuthResult)" where
  "callbackOutcome q expectedState =
     (case orUndefined (q_error q) of
        Some err \<Rightarrow>
          (ErrorPage err (orUndefined (q_error_description q)),
           Inl (ProviderError err (orUndefined (q_error_description q))))
      | None \<Rightarrow>
          if q_state q \<noteq> Some expectedState
          then (ErrorPage ''invalid_state'' (Some ''State mismatch''), Inl StateMismatch)
          else
            (case orUndefined (q_code q) of
               None \<Rightarrow> (ErrorPage ''no_code'' (Some ''No authorization code''), Inl MissingCode)
             | Some c \<Rightarrow>
                 (SuccessPage, Inr \<lparr>success = True, code = Some c, state = q_state q\<rparr>)))"

text \<open>
  The two fields of the class, and what the run time holds for it. An attempt is numbered by
  the call of \<open>login\<close> that began it; its server has the same number. \<open>openServers\<close> are
  the servers created and not yet closed; \<open>expected\<close> is the state each server's handler
  was given; \<open>serverPromise\<close> and \<open>loginPromise\<close> hold how the promise of
  \<open>startCallbackServer\<close> and the promise \<open>login\<close> returned were settled, once they are;
  \<open>opened\<close> are the URLs handed to the browser and \<open>responses\<close> the pages sent.
\<close>

record OAuthManager =
  server :: "nat option"
  authPromise :: "nat option"
  openServers :: "nat list"
  expected :: "nat \<Rightarrow> string"
  serverPromise :: "nat \<Rightarrow> (authError + AuthResult) option"
  loginPromise :: "nat \<Rightarrow> (authError + AuthResult) option"
  opened :: "authorizationUrl list"
  responses :: "page list"
  nextAttempt :: nat

definition newOAuthManager :: OAuthManager where
  "newOAuthManager =
     \<lparr>server = None, authPromise = None, openServers = [], expected = (\<lambda>a. []),
      serverPromise = (\<lambda>a. None), loginPromise = (\<lambda>a. None),
      opened = [], responses = [], nextAttempt = 0\<rparr>"

text \<open>Resolving or rejecting a promise that is already settled does nothing.\<close>

definition settle ::
  "(nat \<Rightarrow> 'a option) \<Rightarrow> nat \<Rightarrow> 'a \<Rightarrow> (nat \<Rightarrow> 'a option)" where
  "settle promises a v = (if promises a = None then promises(a \<mapsto> v) else promises)"

definition stopCallbackServer :: "OAuthManager \<Rightarrow> OAuthManager" where
  "stopCallbackServer om =
     (case server om of
        None \<Rightarrow> om
      | Some h \<Rightarrow> om\<lparr>openServers := removeAll h (openServers om), server := None\<rparr>)"

text \<open>
  \<open>login\<close> after \<open>await serverPromise\<close>, for attempt \<open>a\<close>: the lines after the \<open>await\<close> when
  the promise was resolved, the \<open>catch\<close> when it was rejected.
\<close>

definition login_resume :: "nat \<Rightarrow> authError + AuthResult \<Rightarrow> OAuthManager \<Rightarrow> OAuthManager" where
  "login_resume a outcome om =
     (case outcome of
        Inr result \<Rightarrow>
          om\<lparr>authPromise := None, loginPromise := settle (loginPromise om) a (Inr result)\<rparr>
      | Inl e \<Rightarrow>
          (let om1 = stopCallbackServer (om\<lparr>authPromise := None\<rparr>)
           in om1\<lparr>loginPromise := settle (loginPromise om1) a (Inl e)\<rparr>))"

text \<open>The promise of \<open>startCallbackServer\<close> is settled, and the waiting \<open>login\<close> goes on.\<close>

definition settleServerPromise ::
  "nat \<Rightarrow> authError + AuthResult \<Rightarrow> OAuthManager \<Rightarrow> OAuthManager" where
  "settleServerPromise a outcome om =
     (if serverPromise om a = None
      then login_resume a outcome (om\<lparr>serverPromise := (serverPromise om)(a \<mapsto> outcome)\<rparr>)
      else om)"

definition handleCallback :: "nat \<Rightarrow> callbackParams \<Rightarrow> OAuthManager \<Rightarrow> OAuthManager" where
  "handleCallback a q om =
     (let (pg, outcome) = callbackOutcome q (expected om a);
          om1 = stopCallbackServer (om\<lparr>responses := responses om @ [pg]\<rparr>)
      in settleServerPromise a outcome om1)"

text \<open>A request to the server of attempt \<open>a\<close>: without a URL, or with a path and a query.\<close>

datatype request = NoUrl | Request string callbackParams

definition onRequest :: "OAuthConfig \<Rightarrow> nat \<Rightarrow> request \<Rightarrow> OAuthManager \<Rightarrow> OAuthManager" where
  "onRequest config a req om =
     (if a \<notin> set (openServers om) then om
      else
        (case req of
           NoUrl \<Rightarrow> om\<lparr>responses := responses om @ [BadRequest]\<rparr>
         | Request pathname q \<Rightarrow>
             if pathname = redirectPathname config then handleCallback a q om
             else om\<lparr>responses := responses om @ [NotFound]\<rparr>))"

text \<open>The \<open>'error'\<close> event of the server of attempt \<open>a\<close>, and its five-minute timer.\<close>

definition onServerError :: "nat \<Rightarrow> string \<Rightarrow> OAuthManager \<Rightarrow> OAuthManager" where
  "onServerError a msg om = settleServerPromise a (Inl (ServerFailed msg)) om"

definition onTimeout :: "nat \<Rightarrow> OAuthManager \<Rightarrow> OAuthManager" where
  "onTimeout a om = settleServerPromise a (Inl AuthTimeout) (stopCallbackServer om)"

text \<open>
  \<open>login\<close> up to \<open>await serverPromise\<close>; \<open>st\<close> is what \<open>generateState\<close> drew. The pending
  attempt, if any, has its promise rejected; then \<open>startCallbackServer\<close> creates the new
  server and stores it in \<open>this.server\<close>, and the browser is opened.
\<close>

definition login_begin :: "OAuthConfig \<Rightarrow> string \<Rightarrow> OAuthManager \<Rightarrow> OAuthManager" where
  "login_begin config st om =
     (let a = nextAttempt om;
          om1 = (case authPromise om of
                   None \<Rightarrow> om
                 | Some b \<Rightarrow> om\<lparr>loginPromise := settle (loginPromise om) b (Inl Superseded)\<rparr>);
          om2 = om1\<lparr>authPromise := Some a\<rparr>;
          om3 = om2\<lparr>server := Some a, openServers := openServers om2 @ [a],
                    expected := (expected om2)(a := st), nextAttempt := Suc a\<rparr>
      in om3\<lparr>opened := opened om3 @ [buildAuthUrl config st]\<rparr>)"

definition cancelAuth :: "OAuthManager \<Rightarrow> OAuthManager" where
  "cancelAuth om =
     stopCallbackServer
       (case authPromise om of
          None \<Rightarrow> om
        | Some a \<Rightarrow>
            om\<lparr>loginPromise := settle (loginPromise om) a (Inl AuthCancelled),
               authPromise := None\<rparr>)"

subsection \<open>Runs of the authorization flow\<close>

text \<open>
  What can happen to the manager, one event-loop turn each: a call of \<open>login\<close>, a request
  reaching the server of an attempt, the timer of an attempt firing, the \<open>'error'\<close> event of
  its server, a call of \<open>cancelAuth\<close>. A timer and a server exist only for an attempt that
  was begun.
\<close>

datatype step =
    Login string
  | Incoming nat request
  | TimerFired nat
  | ServerErrored nat string
  | Cancel

fun apply_step :: "OAuthConfig \<Rightarrow> step \<Rightarrow> OAuthManager \<Rightarrow> OAuthManager" where
  "apply_step config (Login st) om = login_begin config st om"
| "apply_step config (Incoming a req) om = onRequest config a req om"
| "apply_step config (TimerFired a) om = (if a < nextAttempt om then onTimeout a om else om)"
| "apply_step config (ServerErrored a msg) om =
     (if a < nextAttempt om then onServerError a msg om else om)"
| "apply_step config Cancel om = cancelAuth om"

fun run :: "OAuthConfig \<Rightarrow> step list \<Rightarrow> OAuthManager \<Rightarrow> OAuthManager" where
  "run config [] om = om"
| "run config (ev # evs) om = run config evs (apply_step config ev om)"

section \<open>The login handler of the main process (src/main/main.ts)\<close>

datatype handlerError =
    NotInitialized
  | AuthorizationFailed authError
  | NoAuthorizationCode
  | NoTokenReceived
  | LoginCallFailed error

record replyUser =
  r_id :: int
  r_login :: string
  r_name :: "string option"
  r_email :: "string option"
  r_avatar_url :: string
  r_public_repos :: int
  r_followers :: int
  r_following :: int

text \<open>\<open>a || b\<close> on two optional strings.\<close>

definition orElse :: "string option \<Rightarrow> string option \<Rightarrow> string option" where
  "orElse a b = (if truthy a then a else b)"

definition replyUserOf :: "profile \<Rightarrow> replyUser" where
  "replyUserOf p =
     \<lparr>r_id = user_id p, r_login = login p, r_name = name p,
      r_email = orElse (email p) (primaryEmail p),
      r_avatar_url = avatar_url p, r_public_repos = public_repos p,
      r_followers = followers p, r_following = following p\<rparr>"

text \<open>
  The handler of \<open>'oauth:login'\<close> from the point where \<open>await this.oauthManager.login()\<close>
  has settled with \<open>outcome\<close>. \<open>initialized\<close> says that the three managers exist.
\<close>

definition oauthLoginHandler ::
  "bool \<Rightarrow> authError + AuthResult \<Rightarrow> int \<Rightarrow> network \<Rightarrow> manager \<Rightarrow> keychain
     \<Rightarrow> (handlerError + replyUser \<times> token) \<times> manager \<times> keychain" where
  "oauthLoginHandler initialized outcome now net m kc =
     (if \<not> initialized then (Inl NotInitialized, m, kc)
      else
        (case outcome of
           Inl e \<Rightarrow> (Inl (AuthorizationFailed e), m, kc)
         | Inr result \<Rightarrow>
             (case (if success result then orUndefined (code result) else None) of
                None \<Rightarrow> (Inl NoAuthorizationCode, m, kc)
              | Some authCode \<Rightarrow>
                  (case exchangeCodeForToken net authCode of
                     Inl e \<Rightarrow> (Inl (LoginCallFailed e), m, kc)
                   | Inr tokenResponse \<Rightarrow>
                       (case orUndefined (tr_access_token tokenResponse) of
                          None \<Rightarrow> (Inl NoTokenReceived, m, kc)
                        | Some accessToken \<Rightarrow>
                            (case getCompleteUserProfile net accessToken of
                               Inl e \<Rightarrow> (Inl (LoginCallFailed e), m, kc)
                             | Inr userProfile \<Rightarrow>
                                 (let t = \<lparr>access_token = accessToken,
                                           token_type = tr_token_type tokenResponse,
                                           scope = tr_scope tokenResponse\<rparr>;
                                      session = createSession userProfile t now
                                  in case saveSession session m kc of
                                       (Inl e, m1, kc1) \<Rightarrow> (Inl (LoginCallFailed e), m1, kc1)
                                     | (Inr u, m1, kc1) \<Rightarrow>
                                         (Inr (replyUserOf userProfile, t), m1, kc1))))))))"

section \<open>Notions used in the statements\<close>

text \<open>The session \<open>s\<close> with another access token and everything else as it is.\<close>

definition withAccessToken :: "string \<Rightarrow> UserSession \<Rightarrow> UserSession" where
  "withAccessToken t s = s\<lparr>token := (token s)\<lparr>access_token := t\<rparr>\<rparr>"

text \<open>
  The session \<open>loadSession\<close> rebuilds from what \<open>saveSession(s)\<close> wrote: \<open>s\<close>, but for a
  \<open>lastValidatedAt\<close> of 0, which \<open>||\<close> replaces by \<open>createdAt\<close>.
\<close>

definition reloaded :: "UserSession \<Rightarrow> UserSession" where
  "reloaded s =
     s\<lparr>lastValidatedAt := (if lastValidatedAt s = 0 then createdAt s else lastValidatedAt s)\<rparr>"

text \<open>
  A server that is open while \<open>this.server\<close> no longer refers to it: \<open>stopCallbackServer\<close>
  closes the server in \<open>this.server\<close> and no other.
\<close>

definition orphaned :: "nat \<Rightarrow> OAuthManager \<Rightarrow> bool" where
  "orphaned h om = (h \<in> set (openServers om) \<and> server om \<noteq> Some h \<and> h < nextAttempt om)"

text \<open>
  What holds of the manager after any run from \<open>newOAuthManager\<close>: attempts not yet begun
  have no promise and no server, the pending attempt was begun, a login promise that was
  resolved carries the state its attempt was given and a code, and the URL opened for an
  attempt carries that state too.
\<close>

definition consistent :: "OAuthManager \<Rightarrow> bool" where
  "consistent om =
     ((\<forall>a. nextAttempt om \<le> a \<longrightarrow>
          loginPromise om a = None \<and> serverPromise om a = None \<and> a \<notin> set (openServers om)) \<and>
      (\<forall>b. authPromise om = Some b \<longrightarrow> b < nextAttempt om) \<and>
      (\<forall>a r. loginPromise om a = Some (Inr r) \<longrightarrow>
          state r = Some (expected om a) \<and> truthy (code r)) \<and>
      length (opened om) = nextAttempt om \<and>
      (\<forall>a. a < nextAttempt om \<longrightarrow> p_state (opened om ! a) = expected om a))"

section \<open>Concrete data for the examples\<close>

definition octocat :: GitHubUser where
  "octocat =
     \<lparr>user_id = 583231, login = ''octocat'', name = Some ''The Octocat'', email = None,
      avatar_url = ''https://avatars.example/u/583231'', bio = None, public_repos = 8,
      followers = 20, following = 9, created_at = ''2011-01-25T18:44:36Z''\<rparr>"

definition octocatProfile :: profile where
  "octocatProfile =
     \<lparr>user_id = 583231, login = ''octocat'', name = Some ''The Octocat'', email = None,
      avatar_url = ''https://avatars.example/u/583231'', bio = None, public_repos = 8,
      followers = 20, following = 9, created_at = ''2011-01-25T18:44:36Z'',
      primaryEmail = None\<rparr>"

definition exampleToken :: token where
  "exampleToken =
     \<lparr>access_token = ''tok_1'', token_type = ''bearer'', scope = ''user:email read:user''\<rparr>"

definition exampleSession :: UserSession where
  "exampleSession =
     \<lparr>user = octocatProfile, token = exampleToken,
      createdAt = 1000, lastValidatedAt = 1000, expiresAt = None\<rparr>"

text \<open>A provider that cannot be reached, and one that answers every request.\<close>

definition offline :: network where
  "offline =
     \<lparr>tokenEndpoint = (\<lambda>c. FetchThrows ''offline''),
      userEndpoint = (\<lambda>t. FetchThrows ''offline''),
      emailsEndpoint = (\<lambda>t. FetchThrows ''offline'')\<rparr>"

definition online :: network where
  "online =
     \<lparr>tokenEndpoint = (\<lambda>c. Ok \<lparr>tr_access_token = Some ''tok_1'', tr_token_type = ''bearer'',
                                tr_scope = ''user:email read:user'', tr_error = None,
                                tr_error_description = None\<rparr>),
      userEndpoint = (\<lambda>t. Ok octocat),
      emailsEndpoint = (\<lambda>t. Ok [])\<rparr>"

text \<open>An empty vault whose calls all succeed, and one whose deletion of the token fails.\<close>

definition emptyVault :: keychain where
  "emptyVault =
     \<lparr>entries = (\<lambda>k. None), setFails = (\<lambda>k. False), getFails = (\<lambda>k. False),
      deleteFails = (\<lambda>k. False)\<rparr>"

definition allCallbacks :: SessionEvents where
  "allCallbacks =
     \<lparr>onSessionExpired = True, onSessionRefreshed = True, onSessionError = True,
      onAutoLogout = True\<rparr>"

text \<open>The manager and the vault after \<open>saveSession(exampleSession)\<close> on a new manager.\<close>

definition savedManager :: manager where
  "savedManager =
     fst (snd (saveSession exampleSession (newManager\<lparr>eventCallbacks := allCallbacks\<rparr>) emptyVault))"

definition savedVault :: keychain where
  "savedVault =
     snd (snd (saveSession exampleSession (newManager\<lparr>eventCallbacks := allCallbacks\<rparr>) emptyVault))"

text \<open>A provider whose e-mail list cannot be fetched while everything else answers.\<close>

definition emailsDown :: network where
  "emailsDown = online\<lparr>emailsEndpoint := (\<lambda>t. NotOk 503 ''unavailable'')\<rparr>"

text \<open>A vault that refuses to write the metadata, and one that refuses to delete the token.\<close>

definition readOnlyMetadataVault :: keychain where
  "readOnlyMetadataVault = emptyVault\<lparr>setFails := (\<lambda>k. k = USER_KEY)\<rparr>"

definition tokenStuckVault :: keychain where
  "tokenStuckVault = savedVault\<lparr>deleteFails := (\<lambda>k. k = TOKEN_KEY)\<rparr>"

text \<open>The same for the file store, after \<open>saveSession(exampleSession)\<close> on a new manager.\<close>

definition emptyFiles :: fileStore where
  "emptyFiles =
     \<lparr>files = (\<lambda>k. None), writeFails = (\<lambda>k. False), readFails = (\<lambda>k. False),
      unlinkFails = (\<lambda>k. False)\<rparr>"

definition bothCallbacks :: fileSessionEvents where
  "bothCallbacks = \<lparr>f_onSessionExpired = True, f_onSessionRefreshed = True\<rparr>"

definition savedFileManager :: fileManager where
  "savedFileManager =
     fst (snd (saveSession_file exampleSession
                 (newFileManager\<lparr>f_eventCallbacks := bothCallbacks\<rparr>) emptyFiles))"

definition savedFiles :: fileStore where
  "savedFiles =
     snd (snd (saveSession_file exampleSession
                 (newFileManager\<lparr>f_eventCallbacks := bothCallbacks\<rparr>) emptyFiles))"

definition tokenStuckFiles :: fileStore where
  "tokenStuckFiles = savedFiles\<lparr>unlinkFails := (\<lambda>k. k = TOKEN_KEY)\<rparr>"


text \<open>The run-time state with the saved session and no refresh under way.\<close>

definition idleRuntime :: runtime where
  "idleRuntime = \<lparr>mgr = savedManager, vault = savedVault, inFlight = []\<rparr>"

definition exampleConfig :: OAuthConfig where
  "exampleConfig =
     \<lparr>clientId = ''client'', clientSecret = ''secret'',
      authUrl = ''https://github.com/login/oauth/authorize'',
      redirectUri = ''http://localhost:3000/callback'',
      redirectPathname = ''/callback'', scopes = [''user:email'', ''read:user'']\<rparr>"

text \<open>Two calls of \<open>login\<close> with no callback in between, and a single one.\<close>

definition twoLogins :: OAuthManager where
  "twoLogins = login_begin exampleConfig ''state-2'' (login_begin exampleConfig ''state-1'' newOAuthManager)"

definition oneLogin :: OAuthManager where
  "oneLogin = run exampleConfig [Login ''state-1''] newOAuthManager"

text \<open>A callback with a state the attempt was not given, and one with the right state.\<close>

definition forgedCallback :: callbackParams where
  "forgedCallback =
     \<lparr>q_code = Some ''abc123'', q_state = Some ''forged'', q_error = None,
      q_error_description = None\<rparr>"

definition goodCallback :: callbackParams where
  "goodCallback =
     \<lparr>q_code = Some ''abc123'', q_state = Some ''state-1'', q_error = None,
      q_error_description = None\<rparr>"

section \<open>Facts about the examples\<close>

lemma keys_distinct: "TOKEN_KEY \<noteq> USER_KEY"
  by (simp add: TOKEN_KEY_def USER_KEY_def)

lemma savedManager_fields:
  "currentSession savedManager = Some exampleSession"
  "retryCount savedManager = 0"
  "fired savedManager = []"
  "eventCallbacks savedManager = allCallbacks"
  "isRefreshing savedManager = False"
  by (simp_all add: savedManager_def saveSession_def setPassword_def emptyVault_def
      exampleSession_def exampleToken_def startAutoMaintenance_def stopAutoMaintenance_def
      newManager_def Let_def)

lemma savedVault_fields:
  "deleteFails savedVault = (\<lambda>k. False)"
  "setFails savedVault = (\<lambda>k. False)"
  "getFails savedVault = (\<lambda>k. False)"
  "entries savedVault (SERVICE_NAME, TOKEN_KEY) = Some (Raw ''tok_1'')"
  "entries savedVault (SERVICE_NAME, USER_KEY) = Some (JsonText (sessionDataOf exampleSession))"
  by (simp_all add: savedVault_def saveSession_def setPassword_def emptyVault_def
      exampleSession_def exampleToken_def TOKEN_KEY_def USER_KEY_def)

lemma savedFileManager_fields:
  "f_currentSession savedFileManager = Some exampleSession"
  "f_fired savedFileManager = []"
  "f_eventCallbacks savedFileManager = bothCallbacks"
  by (simp_all add: savedFileManager_def saveSession_file_def setStorageItem_def emptyFiles_def
      startAutoMaintenance_file_def stopAutoMaintenance_file_def newFileManager_def Let_def)

lemma savedFiles_fields:
  "unlinkFails savedFiles = (\<lambda>k. False)"
  "writeFails savedFiles = (\<lambda>k. False)"
  "readFails savedFiles = (\<lambda>k. False)"
  "files savedFiles TOKEN_KEY = Some (Raw ''tok_1'')"
  "files savedFiles USER_KEY = Some (JsonText (sessionDataOf_file exampleSession))"
  by (simp_all add: savedFiles_def saveSession_file_def setStorageItem_def emptyFiles_def
      exampleSession_def exampleToken_def TOKEN_KEY_def USER_KEY_def)

section \<open>Validation: retry before eviction\<close>



lemma clearSession_memory:
  "currentSession (fst (clearSession m kc)) = None"
  "retryCount (fst (clearSession m kc)) = 0"
  "validationTimer (fst (clearSession m kc)) = None"
  "refreshTimer (fst (clearSession m kc)) = None"
  "fired (fst (clearSession m kc)) = fired m"
  "eventCallbacks (fst (clearSession m kc)) = eventCallbacks m"
  "isRefreshing (fst (clearSession m kc)) = isRefreshing m"
  by (simp_all add: clearSession_def stopAutoMaintenance_def Let_def split: sum.splits)




text \<open>
  The same counter is counted up by a refresh of the timer that fails.
\<close>

lemma refreshUserInfo_failure:
  assumes "currentSession m = Some s"
      and "getCompleteUserProfile net (access_token (token s)) = Inl e"
  shows "refreshUserInfo now net m kc = (Inl (RefreshUserInfoFailed e), m, kc)"
  using assms by (simp add: refreshUserInfo_def refreshUserInfo_resume_def)

lemma performAutoRefresh_failure:
  assumes "currentSession m = Some s" and "\<not> isRefreshing m"
      and "getCompleteUserProfile net (access_token (token s)) = Inl e"
  shows "performAutoRefresh now net m kc =
           (let (m2, kc2) = handleSessionError (RefreshUserInfoFailed e) (m\<lparr>isRefreshing := True\<rparr>) kc
            in (m2\<lparr>isRefreshing := False\<rparr>, kc2))"
  using assms refreshUserInfo_failure[of "m\<lparr>isRefreshing := True\<rparr>" s net e now kc]
  by (simp add: performAutoRefresh_def performAutoRefresh_finish_def)





section \<open>The authorization flow: the state parameter\<close>

lemma callbackOutcome_accepts:
  "snd (callbackOutcome q st) = Inr r \<Longrightarrow>
     q_state q = Some st \<and> orUndefined (q_error q) = None \<and> code r = q_code q \<and> truthy (code r) \<and>
     state r = Some st \<and> success r"
  by (auto simp: callbackOutcome_def orUndefined_def split: option.splits if_splits)

lemma callbackOutcome_mismatch:
  "orUndefined (q_error q) = None \<Longrightarrow> q_state q \<noteq> Some st \<Longrightarrow>
     snd (callbackOutcome q st) = Inl StateMismatch"
  by (simp add: callbackOutcome_def)

lemma consistent_new: "consistent newOAuthManager"
  by (simp add: consistent_def newOAuthManager_def)

lemma consistent_stop: "consistent om \<Longrightarrow> consistent (stopCallbackServer om)"
  by (auto simp: consistent_def stopCallbackServer_def split: option.splits)

lemma consistent_reject:
  "consistent om \<Longrightarrow> a < nextAttempt om \<Longrightarrow>
     consistent (om\<lparr>loginPromise := settle (loginPromise om) a (Inl e)\<rparr>)"
  by (auto simp: consistent_def settle_def)

lemma consistent_login_resume:
  assumes "consistent om" and "a < nextAttempt om"
      and "\<And>r. outcome = Inr r \<Longrightarrow> state r = Some (expected om a) \<and> truthy (code r)"
  shows "consistent (login_resume a outcome om)"
proof (cases outcome)
  case (Inl e)
  have "consistent (stopCallbackServer (om\<lparr>authPromise := None\<rparr>))"
    using assms(1) by (intro consistent_stop) (auto simp: consistent_def)
  then show ?thesis
    using Inl assms(2) consistent_reject[of "stopCallbackServer (om\<lparr>authPromise := None\<rparr>)" a e]
    by (simp add: login_resume_def Let_def stopCallbackServer_def split: option.splits)
next
  case (Inr r)
  then show ?thesis
    using assms by (auto simp: login_resume_def consistent_def settle_def)
qed

lemma consistent_settleServerPromise:
  assumes "consistent om" and "a < nextAttempt om"
      and "\<And>r. outcome = Inr r \<Longrightarrow> state r = Some (expected om a) \<and> truthy (code r)"
  shows "consistent (settleServerPromise a outcome om)"
proof -
  have "consistent (om\<lparr>serverPromise := (serverPromise om)(a \<mapsto> outcome)\<rparr>)"
    using assms(1,2) by (auto simp: consistent_def)
  then show ?thesis
    using assms consistent_login_resume[of "om\<lparr>serverPromise := (serverPromise om)(a \<mapsto> outcome)\<rparr>" a outcome]
    by (simp add: settleServerPromise_def)
qed

lemma stopCallbackServer_fields:
  "nextAttempt (stopCallbackServer om) = nextAttempt om"
  "expected (stopCallbackServer om) = expected om"
  "loginPromise (stopCallbackServer om) = loginPromise om"
  "serverPromise (stopCallbackServer om) = serverPromise om"
  by (simp_all add: stopCallbackServer_def split: option.splits)

lemma consistent_handleCallback:
  assumes "consistent om" and "a < nextAttempt om"
  shows "consistent (handleCallback a q om)"
proof -
  define om1 where
    "om1 = stopCallbackServer (om\<lparr>responses := responses om @ [fst (callbackOutcome q (expected om a))]\<rparr>)"
  have c: "consistent om1"
    unfolding om1_def using assms(1) by (intro consistent_stop) (auto simp: consistent_def)
  have n: "a < nextAttempt om1" and e: "expected om1 a = expected om a"
    using assms(2) by (simp_all add: om1_def stopCallbackServer_fields)
  have acc: "state r = Some (expected om1 a) \<and> truthy (code r)"
    if "snd (callbackOutcome q (expected om a)) = Inr r" for r
    using callbackOutcome_accepts[OF that] e by auto
  have "consistent (settleServerPromise a (snd (callbackOutcome q (expected om a))) om1)"
    by (rule consistent_settleServerPromise[OF c n acc])
  then show ?thesis
    by (simp add: handleCallback_def Let_def case_prod_beta om1_def)
qed

lemma consistent_login_begin: "consistent om \<Longrightarrow> consistent (login_begin config st om)"
  by (auto simp: consistent_def login_begin_def Let_def settle_def nth_append buildAuthUrl_def
      split: option.splits)

lemma consistent_cancelAuth: "consistent om \<Longrightarrow> consistent (cancelAuth om)"
  unfolding cancelAuth_def
  by (intro consistent_stop) (auto simp: consistent_def settle_def split: option.splits)

lemma consistent_apply_step:
  assumes "consistent om"
  shows "consistent (apply_step config ev om)"
proof (cases ev)
  case (Login st)
  then show ?thesis using assms by (simp add: consistent_login_begin)
next
  case (Incoming a req)
  have lt: "a < nextAttempt om" if "a \<in> set (openServers om)"
    using assms that by (auto simp: consistent_def not_le[symmetric])
  have "consistent (om\<lparr>responses := responses om @ [pg]\<rparr>)" for pg
    using assms by (auto simp: consistent_def)
  then show ?thesis
    using Incoming assms lt by (simp add: onRequest_def consistent_handleCallback split: request.splits)
next
  case (TimerFired a)
  have "consistent (settleServerPromise a (Inl AuthTimeout) (stopCallbackServer om))"
    if "a < nextAttempt om"
    using that consistent_stop[OF assms]
    by (intro consistent_settleServerPromise) (simp_all add: stopCallbackServer_fields)
  then show ?thesis
    using TimerFired assms by (simp add: onTimeout_def)
next
  case (ServerErrored a msg)
  then show ?thesis
    using assms consistent_settleServerPromise[of om a "Inl (ServerFailed msg)"]
    by (simp add: onServerError_def)
next
  case Cancel
  then show ?thesis using assms by (simp add: consistent_cancelAuth)
qed

lemma consistent_run: "consistent om \<Longrightarrow> consistent (run config evs om)"
  by (induction evs arbitrary: om) (simp_all add: consistent_apply_step)

text \<open>
  A request on the callback path to the server of an attempt whose promises are pending
  settles the login promise with what \<open>handleCallback\<close> decides.
\<close>

lemma pending_callback_settles:
  assumes "a \<in> set (openServers om)" and "serverPromise om a = None" and "loginPromise om a = None"
  shows "loginPromise (onRequest config a (Request (redirectPathname config) q) om) a =
           Some (snd (callbackOutcome q (expected om a)))"
  using assms
  by (auto simp: onRequest_def handleCallback_def settleServerPromise_def
      login_resume_def stopCallbackServer_def settle_def Let_def case_prod_beta
      split: sum.splits option.splits)

text \<open>
  Claim C2 (state-parameter integrity). In every state the manager reaches from its initial
  one, and for every attempt \<open>a\<close> begun so far: the authorization URL opened for \<open>a\<close> carries
  the state generated for \<open>a\<close>; if the login promise of \<open>a\<close> was resolved, the result carries
  a code and, as its \<open>state\<close>, a callback state equal to the generated one;
  \<open>handleCallback\<close> resolves only on a callback whose \<open>state\<close> parameter equals the
  generated one; a callback without provider error and with another state, arriving while the
  attempt is pending, rejects the login promise with the state-mismatch error; and the login
  handler creates no session on a rejected login: manager and vault are left as they were.
\<close>

theorem state_parameter_integrity:
  assumes reached: "om = run config evs newOAuthManager" and begun: "a < nextAttempt om"
  shows "p_state (opened om ! a) = expected om a \<and>
         (\<forall>r. loginPromise om a = Some (Inr r) \<longrightarrow>
            state r = Some (expected om a) \<and> truthy (code r)) \<and>
         (\<forall>q r. snd (callbackOutcome q (expected om a)) = Inr r \<longrightarrow>
            q_state q = Some (expected om a) \<and> code r = q_code q \<and> state r = q_state q) \<and>
         (\<forall>q. orUndefined (q_error q) = None \<and> q_state q \<noteq> Some (expected om a) \<and>
               a \<in> set (openServers om) \<and> serverPromise om a = None \<and> loginPromise om a = None \<longrightarrow>
            loginPromise (onRequest config a (Request (redirectPathname config) q) om) a =
              Some (Inl StateMismatch)) \<and>
         (\<forall>e now net m kc.
            oauthLoginHandler True (Inl e) now net m kc = (Inl (AuthorizationFailed e), m, kc))"
proof -
  have c: "consistent om"
    using reached consistent_run[OF consistent_new] by simp
  have 1: "p_state (opened om ! a) = expected om a"
    using c begun by (simp add: consistent_def)
  have 2: "state r = Some (expected om a) \<and> truthy (code r)" if "loginPromise om a = Some (Inr r)" for r
    using c that by (simp add: consistent_def)
  have 3: "q_state q = Some (expected om a) \<and> code r = q_code q \<and> state r = q_state q"
    if "snd (callbackOutcome q (expected om a)) = Inr r" for q r
    using callbackOutcome_accepts[OF that] by simp
  have 4: "loginPromise (onRequest config a (Request (redirectPathname config) q) om) a =
              Some (Inl StateMismatch)"
    if "orUndefined (q_error q) = None" "q_state q \<noteq> Some (expected om a)"
       "a \<in> set (openServers om)" "serverPromise om a = None" "loginPromise om a = None" for q
    using pending_callback_settles[OF that(3,4,5)] callbackOutcome_mismatch[OF that(1,2)] by simp
  have 5: "oauthLoginHandler True (Inl e) now net m kc = (Inl (AuthorizationFailed e), m, kc)"
    for e now net m kc
    by (simp add: oauthLoginHandler_def)
  show ?thesis
    using 1 2 3 4 5 by blast
qed

text \<open>
  The theorem after one \<open>login\<close>, with a forged callback; the right callback resolves.
\<close>

theorem state_parameter_integrity_witness:
  "oneLogin = run exampleConfig [Login ''state-1''] newOAuthManager \<and> 0 < nextAttempt oneLogin \<and>
   expected oneLogin 0 = ''state-1'' \<and> p_state (opened oneLogin ! 0) = ''state-1'' \<and>
   orUndefined (q_error forgedCallback) = None \<and> q_state forgedCallback = Some ''forged'' \<and>
   0 \<in> set (openServers oneLogin) \<and> serverPromise oneLogin 0 = None \<and> loginPromise oneLogin 0 = None \<and>
   loginPromise (onRequest exampleConfig 0 (Request (redirectPathname exampleConfig) forgedCallback) oneLogin) 0
     = Some (Inl StateMismatch) \<and>
   loginPromise (onRequest exampleConfig 0 (Request (redirectPathname exampleConfig) goodCallback) oneLogin) 0
     = Some (Inr \<lparr>success = True, code = Some ''abc123'', state = Some ''state-1''\<rparr>) \<and>
   oauthLoginHandler True (Inl StateMismatch) 2000 online newManager emptyVault =
     (Inl (AuthorizationFailed StateMismatch), newManager, emptyVault)"
proof -
  have r: "oneLogin = run exampleConfig [Login ''state-1''] newOAuthManager"
    by (simp add: oneLogin_def)
  have facts: "0 < nextAttempt oneLogin \<and> expected oneLogin 0 = ''state-1'' \<and>
      0 \<in> set (openServers oneLogin) \<and> serverPromise oneLogin 0 = None \<and> loginPromise oneLogin 0 = None"
    by (simp add: oneLogin_def login_begin_def newOAuthManager_def Let_def)
  have forged: "orUndefined (q_error forgedCallback) = None \<and> q_state forgedCallback = Some ''forged''"
    by (simp add: forgedCallback_def orUndefined_def)
  have good: "loginPromise (onRequest exampleConfig 0 (Request (redirectPathname exampleConfig) goodCallback) oneLogin) 0
     = Some (Inr \<lparr>success = True, code = Some ''abc123'', state = Some ''state-1''\<rparr>)"
    using pending_callback_settles[of 0 oneLogin exampleConfig goodCallback] facts
    by (simp add: callbackOutcome_def goodCallback_def orUndefined_def)
  from state_parameter_integrity[OF r, of 0] facts forged good r
  show ?thesis by simp
qed

section \<open>The authorization flow: the listener\<close>

text \<open>No event closes a server that \<open>this.server\<close> has lost.\<close>

lemma stopCallbackServer_orphan:
  "orphaned h om \<Longrightarrow> orphaned h (stopCallbackServer om)"
  by (auto simp: orphaned_def stopCallbackServer_def split: option.splits)

lemma orphaned_cong:
  "openServers om' = openServers om \<Longrightarrow> server om' = server om \<Longrightarrow> nextAttempt om' = nextAttempt om
     \<Longrightarrow> orphaned h om' = orphaned h om"
  by (simp add: orphaned_def)

lemma login_resume_orphan:
  "orphaned h om \<Longrightarrow> orphaned h (login_resume a outcome om)"
  by (auto simp: orphaned_def login_resume_def stopCallbackServer_def Let_def split: sum.splits option.splits)

lemma settleServerPromise_orphan:
  "orphaned h om \<Longrightarrow> orphaned h (settleServerPromise a outcome om)"
proof -
  assume o: "orphaned h om"
  have "orphaned h (om\<lparr>serverPromise := (serverPromise om)(a \<mapsto> outcome)\<rparr>)"
    using o by (simp add: orphaned_def)
  then show ?thesis
    using o by (simp add: settleServerPromise_def login_resume_orphan)
qed

lemma handleCallback_orphan:
  "orphaned h om \<Longrightarrow> orphaned h (handleCallback a q om)"
proof -
  assume o: "orphaned h om"
  have "orphaned h (om\<lparr>responses := responses om @ [pg]\<rparr>)" for pg
    using o by (simp add: orphaned_def)
  then show ?thesis
    by (simp add: handleCallback_def Let_def case_prod_beta settleServerPromise_orphan stopCallbackServer_orphan)
qed

lemma apply_step_orphan:
  "orphaned h om \<Longrightarrow> orphaned h (apply_step config ev om)"
proof (cases ev)
  case (Login st)
  assume "orphaned h om"
  then show ?thesis
    using Login by (auto simp: orphaned_def login_begin_def Let_def split: option.splits)
next
  case (Incoming a req)
  assume o: "orphaned h om"
  have "orphaned h (om\<lparr>responses := responses om @ [pg]\<rparr>)" for pg
    using o by (simp add: orphaned_def)
  then show ?thesis
    using Incoming o by (simp add: onRequest_def handleCallback_orphan split: request.splits)
next
  case (TimerFired a)
  assume "orphaned h om"
  then show ?thesis
    using TimerFired by (simp add: onTimeout_def settleServerPromise_orphan stopCallbackServer_orphan)
next
  case (ServerErrored a msg)
  assume "orphaned h om"
  then show ?thesis
    using ServerErrored by (simp add: onServerError_def settleServerPromise_orphan)
next
  case Cancel
  assume o: "orphaned h om"
  have "orphaned h (case authPromise om of None \<Rightarrow> om
        | Some a \<Rightarrow> om\<lparr>loginPromise := settle (loginPromise om) a (Inl AuthCancelled), authPromise := None\<rparr>)"
    using o by (simp add: orphaned_def split: option.splits)
  then show ?thesis
    using Cancel by (simp add: cancelAuth_def stopCallbackServer_orphan)
qed

lemma run_orphan:
  "orphaned h om \<Longrightarrow> orphaned h (run config evs om)"
  by (induction evs arbitrary: om) (simp_all add: apply_step_orphan)

text \<open>
  With a single attempt, every way out closes the listener and settles the promise: a
  callback of any content, the timeout, the cancellation, a server error.
\<close>

lemma sole_attempt_closes_listener:
  assumes "om = login_begin config st newOAuthManager"
  shows "openServers (onRequest config 0 (Request (redirectPathname config) q) om) = [] \<and>
         loginPromise (onRequest config 0 (Request (redirectPathname config) q) om) 0 =
           Some (snd (callbackOutcome q st))"
    and "openServers (onTimeout 0 om) = [] \<and> loginPromise (onTimeout 0 om) 0 = Some (Inl AuthTimeout)"
    and "openServers (cancelAuth om) = [] \<and> loginPromise (cancelAuth om) 0 = Some (Inl AuthCancelled)"
    and "openServers (onServerError 0 msg om) = [] \<and>
         loginPromise (onServerError 0 msg om) 0 = Some (Inl (ServerFailed msg))"
  using assms
  by (auto simp: login_begin_def newOAuthManager_def onRequest_def handleCallback_def onTimeout_def
      cancelAuth_def onServerError_def settleServerPromise_def login_resume_def stopCallbackServer_def
      settle_def Let_def case_prod_beta split: sum.splits)

text \<open>
  Claim C3 (listener cleanup on every exit path), at the input where the code departs from
  it: \<open>login()\<close> called twice with no callback in between. The promise of the first attempt
  is settled (rejected as superseded) while its server is still open; \<open>this.server\<close> now
  holds the second server, and no later event closes the first.
\<close>

theorem superseded_listener_stays_open:
  "loginPromise twoLogins 0 = Some (Inl Superseded) \<and> 0 \<in> set (openServers twoLogins) \<and>
   server twoLogins = Some 1 \<and>
   (\<forall>evs. 0 \<in> set (openServers (run exampleConfig evs twoLogins)))"
proof -
  have a: "loginPromise twoLogins 0 = Some (Inl Superseded) \<and> 0 \<in> set (openServers twoLogins) \<and>
   server twoLogins = Some 1 \<and> nextAttempt twoLogins = 2"
    by (simp add: twoLogins_def login_begin_def newOAuthManager_def settle_def Let_def)
  then have "orphaned 0 twoLogins"
    by (simp add: orphaned_def)
  then have "0 \<in> set (openServers (run exampleConfig evs twoLogins))" for evs
    using run_orphan[of 0 twoLogins exampleConfig evs] by (simp add: orphaned_def)
  with a show ?thesis by simp
qed

section \<open>Refresh serialization\<close>

text \<open>
  What holds of the flag: a refresh arriving while it is set starts no call, the timer's
  refresh sets it before its call and clears it when the call has answered, whatever the
  answer.
\<close>

lemma refresh_guard:
  assumes "isRefreshing (mgr rt)"
  shows "manualRefresh_begin rt = rt" and "performAutoRefresh_begin rt = rt"
  using assms by (simp_all add: manualRefresh_begin_def performAutoRefresh_begin_def)

lemma manualRefresh_while_refreshing:
  "isRefreshing m \<Longrightarrow> manualRefresh now net m kc = (Inr (currentSession m), m, kc)"
  by (simp add: manualRefresh_def)

lemma performAutoRefresh_sets_flag:
  assumes "inFlight (performAutoRefresh_begin rt) \<noteq> inFlight rt"
  shows "isRefreshing (mgr (performAutoRefresh_begin rt))"
  using assms
  by (auto simp: performAutoRefresh_begin_def refreshUserInfo_begin_def split: if_splits option.splits)

lemma handleSessionError_keeps_flag:
  "isRefreshing (fst (handleSessionError e m kc)) = isRefreshing m"
  by (simp add: handleSessionError_def Let_def fire_def case_prod_beta clearSession_def
      stopAutoMaintenance_def split: sum.splits)

lemma performAutoRefresh_finish_clears_flag:
  "\<not> isRefreshing (fst (performAutoRefresh_finish r))"
  by (auto simp: performAutoRefresh_finish_def fire_def case_prod_beta
      split: prod.splits sum.splits option.splits)

lemma timer_refresh_clears_flag:
  assumes "Timer \<in> set (inFlight rt)"
  shows "\<not> isRefreshing (mgr (refresh_resume Timer answer now rt))"
  using assms performAutoRefresh_finish_clears_flag
  by (simp add: refresh_resume_def Let_def case_prod_beta)

text \<open>
  Claim C4 (refresh serialization), at the input where the code departs from it: with a
  session and no refresh under way, \<open>manualRefresh()\<close> sends its call and leaves
  \<open>isRefreshing\<close> false; the refresh timer firing before the answer, or a second
  \<open>manualRefresh()\<close>, sends a second call. Two refresh calls are then in flight.
\<close>

theorem two_refreshes_in_flight:
  "isRefreshing (mgr idleRuntime) = False \<and> inFlight idleRuntime = [] \<and>
   isRefreshing (mgr (manualRefresh_begin idleRuntime)) = False \<and>
   inFlight (manualRefresh_begin idleRuntime) = [Manual] \<and>
   inFlight (performAutoRefresh_begin (manualRefresh_begin idleRuntime)) = [Manual, Timer] \<and>
   inFlight (manualRefresh_begin (manualRefresh_begin idleRuntime)) = [Manual, Manual]"
  by (simp add: idleRuntime_def manualRefresh_begin_def performAutoRefresh_begin_def
      refreshUserInfo_begin_def savedManager_fields)

section \<open>Clearing the session\<close>

text \<open>
  \<open>clearSession\<close> returns no error in either variant, and the manager it leaves has no
  session and no timer (and \<open>retryCount\<close> 0 where there is one), whatever the store does.
  The file-store variant deletes each key on its own.
\<close>

lemma clearSession_store_result:
  "entries (snd (clearSession m kc)) =
     (if deleteFails kc TOKEN_KEY then entries kc
      else if deleteFails kc USER_KEY then (entries kc)((SERVICE_NAME, TOKEN_KEY) := None)
      else (entries kc)((SERVICE_NAME, TOKEN_KEY) := None, (SERVICE_NAME, USER_KEY) := None))"
  by (simp add: clearSession_def deletePassword_def Let_def)

lemma clearSession_file_memory:
  "f_currentSession (fst (clearSession_file fm fs)) = None"
  "f_validationTimer (fst (clearSession_file fm fs)) = None"
  "f_refreshTimer (fst (clearSession_file fm fs)) = None"
  "f_fired (fst (clearSession_file fm fs)) = f_fired fm"
  "f_eventCallbacks (fst (clearSession_file fm fs)) = f_eventCallbacks fm"
  by (simp_all add: clearSession_file_def stopAutoMaintenance_file_def Let_def)

lemma clearSession_file_independent:
  "files (snd (clearSession_file fm fs)) TOKEN_KEY = (if unlinkFails fs TOKEN_KEY then files fs TOKEN_KEY else None)"
  "files (snd (clearSession_file fm fs)) USER_KEY = (if unlinkFails fs USER_KEY then files fs USER_KEY else None)"
  by (simp_all add: clearSession_file_def deleteStorageItem_def Let_def keys_distinct keys_distinct[symmetric])

text \<open>
  Claim C5 (\<open>clearSession\<close> resilience), at the input where the code departs from it: a
  vault that holds the saved session and throws on the deletion of the token. The keytar
  variant resets the manager but leaves the metadata in the vault, although its deletion
  would have succeeded: the second \<open>deletePassword\<close> is never called. The file-store
  variant, on a store whose token file cannot be unlinked, still removes the metadata file.
\<close>

theorem clearSession_skips_metadata_deletion:
  "deleteFails tokenStuckVault TOKEN_KEY \<and> deleteFails tokenStuckVault USER_KEY = False \<and>
   currentSession (fst (clearSession savedManager tokenStuckVault)) = None \<and>
   entries (snd (clearSession savedManager tokenStuckVault)) (SERVICE_NAME, USER_KEY) =
     Some (JsonText (sessionDataOf exampleSession)) \<and>
   unlinkFails tokenStuckFiles TOKEN_KEY \<and>
   files (snd (clearSession_file savedFileManager tokenStuckFiles)) USER_KEY = None"
  by (simp add: clearSession_memory clearSession_file_independent tokenStuckVault_def tokenStuckFiles_def
      savedVault_fields savedFiles_fields clearSession_def deletePassword_def keys_distinct keys_distinct[symmetric])

section \<open>A refresh that fails\<close>

lemma refreshUserInfo_file_failure:
  assumes "f_currentSession fm = Some s"
      and "getCompleteUserProfile net (access_token (token s)) = Inl e"
  shows "refreshUserInfo_file now net fm fs = refreshFailed_file fm fs"
  using assms by (simp add: refreshUserInfo_file_def)

lemma refreshFailed_file_evicts:
  "fst (refreshFailed_file fm fs) = None"
  "f_currentSession (fst (snd (refreshFailed_file fm fs))) = None"
  "f_fired (fst (snd (refreshFailed_file fm fs))) =
     f_fired fm @ (if f_onSessionExpired (f_eventCallbacks fm) then [SessionExpired] else [])"
  by (simp_all add: refreshFailed_file_def case_prod_beta fire_file_def clearSession_file_memory)

text \<open>
  Claim C6 as amended (the policies for a failing \<open>refreshUserInfo()\<close> differ between the
  variants). Let the profile fetch fail for the token of the session \<open>s\<close>. In the file-store
  variant \<open>refreshUserInfo()\<close> evicts at once: it returns null, the session is cleared and
  \<open>onSessionExpired\<close> is called. In the keytar variant \<open>refreshUserInfo()\<close> and
  \<open>manualRefresh()\<close> throw and leave manager and vault as they were; the refresh timer's
  \<open>performAutoRefresh()\<close> counts the failure and calls \<open>onSessionError\<close> while the count is
  below \<open>MAX_RETRY_ATTEMPTS\<close>, and clears the session and calls \<open>onAutoLogout\<close> when the
  count reaches it; either way \<open>isRefreshing\<close> is false afterwards.
\<close>

theorem refresh_failure_policies_differ:
  assumes fails: "getCompleteUserProfile net (access_token (token s)) = Inl e"
      and fsession: "f_currentSession fm = Some s"
      and session: "currentSession m = Some s" and idle: "\<not> isRefreshing m"
      and tick: "performAutoRefresh now net m kc = (m', kc')"
  shows "fst (refreshUserInfo_file now net fm fs) = None \<and>
         f_currentSession (fst (snd (refreshUserInfo_file now net fm fs))) = None \<and>
         f_fired (fst (snd (refreshUserInfo_file now net fm fs))) =
           f_fired fm @ (if f_onSessionExpired (f_eventCallbacks fm) then [SessionExpired] else []) \<and>
         refreshUserInfo now net m kc = (Inl (RefreshUserInfoFailed e), m, kc) \<and>
         manualRefresh now net m kc = (Inl (RefreshUserInfoFailed e), m, kc) \<and>
         \<not> isRefreshing m' \<and>
         (Suc (retryCount m) < MAX_RETRY_ATTEMPTS \<longrightarrow>
            currentSession m' = Some s \<and> retryCount m' = Suc (retryCount m) \<and> kc' = kc \<and>
            fired m' = fired m @ (if onSessionError (eventCallbacks m)
                                   then [SessionError (RefreshUserInfoFailed e)] else [])) \<and>
         (MAX_RETRY_ATTEMPTS \<le> Suc (retryCount m) \<longrightarrow>
            currentSession m' = None \<and> retryCount m' = 0 \<and> kc' = snd (clearSession m kc) \<and>
            fired m' = fired m @ (if onAutoLogout (eventCallbacks m) then [AutoLogout] else []))"
proof -
  have filev: "refreshUserInfo_file now net fm fs = refreshFailed_file fm fs"
    by (rule refreshUserInfo_file_failure[OF fsession fails])
  have direct: "refreshUserInfo now net m kc = (Inl (RefreshUserInfoFailed e), m, kc)"
    by (rule refreshUserInfo_failure[OF session fails])
  have manual: "manualRefresh now net m kc = (Inl (RefreshUserInfoFailed e), m, kc)"
    using idle direct by (simp add: manualRefresh_def)
  have t: "(m', kc') = (let (m2, kc2) = handleSessionError (RefreshUserInfoFailed e) (m\<lparr>isRefreshing := True\<rparr>) kc
            in (m2\<lparr>isRefreshing := False\<rparr>, kc2))"
    using performAutoRefresh_failure[OF session idle fails, of now kc] tick by simp
  have below: "currentSession m' = Some s \<and> retryCount m' = Suc (retryCount m) \<and> kc' = kc \<and>
            fired m' = fired m @ (if onSessionError (eventCallbacks m)
                                   then [SessionError (RefreshUserInfoFailed e)] else [])"
    if "Suc (retryCount m) < MAX_RETRY_ATTEMPTS"
    using t that session by (simp add: handleSessionError_def Let_def fire_def)
  have cs: "snd (clearSession (m\<lparr>isRefreshing := True, retryCount := Suc (retryCount m)\<rparr>) kc) = snd (clearSession m kc)"
    by (simp add: clearSession_def Let_def split: sum.splits)
  have at_max: "currentSession m' = None \<and> retryCount m' = 0 \<and> kc' = snd (clearSession m kc) \<and>
            fired m' = fired m @ (if onAutoLogout (eventCallbacks m) then [AutoLogout] else [])"
    if "MAX_RETRY_ATTEMPTS \<le> Suc (retryCount m)"
    using t that cs by (simp add: handleSessionError_def Let_def fire_def case_prod_beta clearSession_memory)
  have idle': "\<not> isRefreshing m'"
    using t by (simp add: case_prod_beta)
  show ?thesis
    using filev direct manual below at_max idle' refreshFailed_file_evicts[of fm fs] by simp
qed

text \<open>The theorem at the saved example session with the provider unreachable.\<close>

theorem refresh_failure_policies_witness:
  "getCompleteUserProfile offline (access_token (token exampleSession)) =
     Inl (GetUserInfoFailed (FetchFailed ''offline'')) \<and>
   f_currentSession savedFileManager = Some exampleSession \<and>
   currentSession savedManager = Some exampleSession \<and> isRefreshing savedManager = False \<and>
   Suc (retryCount savedManager) < MAX_RETRY_ATTEMPTS \<and>
   fst (refreshUserInfo_file 2000 offline savedFileManager savedFiles) = None \<and>
   f_fired (fst (snd (refreshUserInfo_file 2000 offline savedFileManager savedFiles))) = [SessionExpired] \<and>
   refreshUserInfo 2000 offline savedManager savedVault =
     (Inl (RefreshUserInfoFailed (GetUserInfoFailed (FetchFailed ''offline''))), savedManager, savedVault) \<and>
   currentSession (fst (performAutoRefresh 2000 offline savedManager savedVault)) = Some exampleSession \<and>
   fired (fst (performAutoRefresh 2000 offline savedManager savedVault)) =
     [SessionError (RefreshUserInfoFailed (GetUserInfoFailed (FetchFailed ''offline'')))]"
proof -
  have f: "getCompleteUserProfile offline (access_token (token exampleSession)) =
     Inl (GetUserInfoFailed (FetchFailed ''offline''))"
    by (simp add: getCompleteUserProfile_def getUserInfo_def offline_def)
  have idle: "\<not> isRefreshing savedManager"
    by (simp add: savedManager_fields)
  have below: "Suc (retryCount savedManager) < MAX_RETRY_ATTEMPTS"
    by (simp add: savedManager_fields MAX_RETRY_ATTEMPTS_def)
  have t: "performAutoRefresh 2000 offline savedManager savedVault =
     (fst (performAutoRefresh 2000 offline savedManager savedVault),
      snd (performAutoRefresh 2000 offline savedManager savedVault))"
    by simp
  from refresh_failure_policies_differ[OF f savedFileManager_fields(1) savedManager_fields(1) idle t,
      of savedFiles] f idle below
  show ?thesis
    by (simp add: savedManager_fields savedFileManager_fields allCallbacks_def bothCallbacks_def)
qed

text \<open>
  Claim C6 as stated fails: on one failing profile fetch the file-store variant has evicted
  the session while the keytar variant still holds it, both after \<open>refreshUserInfo()\<close> and
  after the timer's \<open>performAutoRefresh()\<close>, which has counted one failure.
\<close>

theorem refresh_failure_policies_counterexample:
  "getCompleteUserProfile offline (access_token (token exampleSession)) =
     Inl (GetUserInfoFailed (FetchFailed ''offline'')) \<and>
   f_currentSession savedFileManager = Some exampleSession \<and>
   f_currentSession (fst (snd (refreshUserInfo_file 2000 offline savedFileManager savedFiles))) = None \<and>
   currentSession savedManager = Some exampleSession \<and>
   currentSession (fst (snd (refreshUserInfo 2000 offline savedManager savedVault))) = Some exampleSession \<and>
   currentSession (fst (performAutoRefresh 2000 offline savedManager savedVault)) = Some exampleSession \<and>
   retryCount (fst (performAutoRefresh 2000 offline savedManager savedVault)) = 1"
proof -
  have f: "getCompleteUserProfile offline (access_token (token exampleSession)) =
     Inl (GetUserInfoFailed (FetchFailed ''offline''))"
    by (simp add: getCompleteUserProfile_def getUserInfo_def offline_def)
  show ?thesis
    using f refreshUserInfo_file_failure[OF savedFileManager_fields(1) f, of 2000 savedFiles]
      refreshUserInfo_failure[OF savedManager_fields(1) f, of 2000 savedVault]
      performAutoRefresh_failure[OF savedManager_fields(1) _ f, of 2000 savedVault]
    by (simp add: savedManager_fields savedFileManager_fields refreshFailed_file_evicts
        handleSessionError_def Let_def MAX_RETRY_ATTEMPTS_def fire_def)
qed

section \<open>Saving and loading\<close>

lemma saveSession_result:
  "saveSession s m kc =
     (if access_token (token s) = []
      then (Inl (SaveSessionFailed (KeytarError ''Password is required.'')), m, kc)
      else if setFails kc TOKEN_KEY then (Inl (SaveSessionFailed (KeytarError TOKEN_KEY)), m, kc)
      else if setFails kc USER_KEY
      then (Inl (SaveSessionFailed (KeytarError USER_KEY)), m,
            kc\<lparr>entries := (entries kc)((SERVICE_NAME, TOKEN_KEY) \<mapsto> Raw (access_token (token s)))\<rparr>)
      else (Inr (), startAutoMaintenance (m\<lparr>currentSession := Some s\<rparr>),
            kc\<lparr>entries := (entries kc)((SERVICE_NAME, TOKEN_KEY) \<mapsto> Raw (access_token (token s)),
                                        (SERVICE_NAME, USER_KEY) \<mapsto> JsonText (sessionDataOf s))\<rparr>))"
  by (simp add: saveSession_def setPassword_def)

lemma saveSession_file_result:
  "saveSession_file s fm fs =
     (if writeFails fs TOKEN_KEY then (Inl (SaveSessionFailed (FsError TOKEN_KEY)), fm, fs)
      else if writeFails fs USER_KEY
      then (Inl (SaveSessionFailed (FsError USER_KEY)), fm,
            fs\<lparr>files := (files fs)(TOKEN_KEY \<mapsto> Raw (access_token (token s)))\<rparr>)
      else (Inr (), startAutoMaintenance_file (fm\<lparr>f_currentSession := Some s\<rparr>),
            fs\<lparr>files := (files fs)(TOKEN_KEY \<mapsto> Raw (access_token (token s)),
                                    USER_KEY \<mapsto> JsonText (sessionDataOf_file s))\<rparr>))"
  by (simp add: saveSession_file_def setStorageItem_def)

lemma updateSessionData_result:
  "updateSessionData s kc =
     (if setFails kc USER_KEY then kc
      else kc\<lparr>entries := (entries kc)((SERVICE_NAME, USER_KEY) \<mapsto> JsonText (sessionDataOf s))\<rparr>)"
  "updateSessionData_file (fm\<lparr>f_currentSession := Some s\<rparr>) fs =
     (if writeFails fs USER_KEY then fs
      else fs\<lparr>files := (files fs)(USER_KEY \<mapsto> JsonText (sessionDataOf_file s))\<rparr>)"
  by (simp_all add: updateSessionData_def updateSessionData_file_def setPassword_def
      setStorageItem_def)

lemma sessionOf_sessionDataOf:
  "sessionOf (access_token (token s)) (sessionDataOf s) = reloaded s"
  "sessionOf_file (access_token (token s)) (sessionDataOf_file s) = (reloaded s)\<lparr>expiresAt := None\<rparr>"
  by (simp_all add: sessionOf_def sessionDataOf_def sessionOf_file_def sessionDataOf_file_def
      reloaded_def lastValidatedOr_def)

text \<open>
  What a new manager loads from the vault that a successful \<open>saveSession(s)\<close> left. The
  token of \<open>s\<close> is not empty then: the vault would have refused it.
\<close>

lemma loadSession_after_saveSession:
  assumes saved: "saveSession s m kc = (Inr (), m', kc')"
      and reads: "\<not> getFails kc TOKEN_KEY" "\<not> getFails kc USER_KEY"
  shows "loadSession newManager kc' =
           (Some (reloaded s),
            startAutoMaintenance (newManager\<lparr>currentSession := Some (reloaded s)\<rparr>), kc')"
proof -
  have tok: "access_token (token s) \<noteq> []"
    using saved by (auto simp: saveSession_result split: if_splits)
  have kc': "kc' = kc\<lparr>entries := (entries kc)((SERVICE_NAME, TOKEN_KEY) \<mapsto> Raw (access_token (token s)),
                                        (SERVICE_NAME, USER_KEY) \<mapsto> JsonText (sessionDataOf s))\<rparr>"
    using saved by (simp add: saveSession_result split: if_splits)
  have g1: "getPassword kc' SERVICE_NAME TOKEN_KEY = Inr (Some (Raw (access_token (token s))))"
    using reads by (simp add: kc' getPassword_def keys_distinct)
  have g2: "getPassword kc' SERVICE_NAME USER_KEY = Inr (Some (JsonText (sessionDataOf s)))"
    using reads by (simp add: kc' getPassword_def)
  have "retryCount newManager = 0"
    by (simp add: newManager_def)
  then have "newManager\<lparr>currentSession := Some (reloaded s), retryCount := 0\<rparr> =
             newManager\<lparr>currentSession := Some (reloaded s)\<rparr>"
    by simp
  then show ?thesis
    using tok g1 g2 by (simp add: loadSession_def Let_def sessionOf_sessionDataOf)
qed

lemma loadSession_file_after_saveSession_file:
  assumes saved: "saveSession_file s fm fs = (Inr (), fm', fs')"
      and tok: "access_token (token s) \<noteq> []"
      and reads: "\<not> readFails fs TOKEN_KEY" "\<not> readFails fs USER_KEY"
  shows "loadSession_file newFileManager fs' =
           (Some ((reloaded s)\<lparr>expiresAt := None\<rparr>),
            startAutoMaintenance_file
              (newFileManager\<lparr>f_currentSession := Some ((reloaded s)\<lparr>expiresAt := None\<rparr>)\<rparr>),
            fs')"
proof -
  have fs': "fs' = fs\<lparr>files := (files fs)(TOKEN_KEY \<mapsto> Raw (access_token (token s)),
                                          USER_KEY \<mapsto> JsonText (sessionDataOf_file s))\<rparr>"
    using saved by (simp add: saveSession_file_result split: if_splits)
  have g1: "getStorageItem fs' TOKEN_KEY = Some (Raw (access_token (token s)))"
    using reads by (simp add: fs' getStorageItem_def keys_distinct)
  have g2: "getStorageItem fs' USER_KEY = Some (JsonText (sessionDataOf_file s))"
    using reads by (simp add: fs' getStorageItem_def)
  show ?thesis
    using tok g1 g2 by (simp add: loadSession_file_def Let_def sessionOf_sessionDataOf)
qed

text \<open>
  Claim C7 (round-trip persistence). If \<open>saveSession(s)\<close> succeeds on a vault whose reads
  succeed, then \<open>loadSession()\<close> on a new manager over the vault it left returns a session,
  makes it the current one with \<open>retryCount\<close> 0, starts the maintenance timers and leaves the
  vault as it is. The session returned has the user snapshot, the full token with the access
  token, \<open>createdAt\<close> and \<open>expiresAt\<close> of \<open>s\<close>; it is \<open>s\<close> itself for every session whose
  timestamps are times of the clock with \<open>lastValidatedAt\<close> not before \<open>createdAt\<close>. The
  file-store variant does the same for a session with a token, which has no \<open>expiresAt\<close>
  there. A stored document without \<open>lastValidatedAt\<close> is read with \<open>createdAt\<close> in its place.
\<close>

theorem save_then_load:
  "(saveSession s m kc = (Inr (), m', kc') \<and>
      \<not> getFails kc TOKEN_KEY \<and> \<not> getFails kc USER_KEY \<longrightarrow>
      loadSession newManager kc' =
        (Some (reloaded s),
         startAutoMaintenance (newManager\<lparr>currentSession := Some (reloaded s)\<rparr>), kc')) \<and>
   (saveSession_file s fm fs = (Inr (), fm', fs') \<and> access_token (token s) \<noteq> [] \<and>
      \<not> readFails fs TOKEN_KEY \<and> \<not> readFails fs USER_KEY \<longrightarrow>
      loadSession_file newFileManager fs' =
        (Some ((reloaded s)\<lparr>expiresAt := None\<rparr>),
         startAutoMaintenance_file
           (newFileManager\<lparr>f_currentSession := Some ((reloaded s)\<lparr>expiresAt := None\<rparr>)\<rparr>),
         fs')) \<and>
   user (reloaded s) = user s \<and> token (reloaded s) = token s \<and>
   createdAt (reloaded s) = createdAt s \<and> expiresAt (reloaded s) = expiresAt s \<and>
   (0 < createdAt s \<and> createdAt s \<le> lastValidatedAt s \<longrightarrow>
      reloaded s = s \<and> (expiresAt s = None \<longrightarrow> (reloaded s)\<lparr>expiresAt := None\<rparr> = s)) \<and>
   lastValidatedAt (sessionOf tok (d\<lparr>sd_lastValidatedAt := None\<rparr>)) = sd_createdAt d \<and>
   lastValidatedAt (sessionOf_file tok (d\<lparr>sd_lastValidatedAt := None\<rparr>)) = sd_createdAt d"
proof -
  have fields: "user (reloaded s) = user s \<and> token (reloaded s) = token s \<and>
     createdAt (reloaded s) = createdAt s \<and> expiresAt (reloaded s) = expiresAt s"
    by (simp add: reloaded_def)
  have same: "reloaded s = s \<and> (expiresAt s = None \<longrightarrow> (reloaded s)\<lparr>expiresAt := None\<rparr> = s)"
    if "0 < createdAt s \<and> createdAt s \<le> lastValidatedAt s"
    using that by (auto simp: reloaded_def)
  have absent: "lastValidatedAt (sessionOf tok (d\<lparr>sd_lastValidatedAt := None\<rparr>)) = sd_createdAt d \<and>
     lastValidatedAt (sessionOf_file tok (d\<lparr>sd_lastValidatedAt := None\<rparr>)) = sd_createdAt d"
    by (simp add: sessionOf_def sessionOf_file_def lastValidatedOr_def)
  show ?thesis
    using fields same absent loadSession_after_saveSession[of s m kc m' kc']
      loadSession_file_after_saveSession_file[of s fm fs fm' fs']
    by blast
qed

text \<open>The theorem at the example session, saved to the empty vault and the empty store.\<close>

theorem save_then_load_witness:
  "saveSession exampleSession (newManager\<lparr>eventCallbacks := allCallbacks\<rparr>) emptyVault =
     (Inr (), savedManager, savedVault) \<and>
   getFails emptyVault TOKEN_KEY = False \<and> getFails emptyVault USER_KEY = False \<and>
   0 < createdAt exampleSession \<and> createdAt exampleSession \<le> lastValidatedAt exampleSession \<and>
   expiresAt exampleSession = None \<and> access_token (token exampleSession) \<noteq> [] \<and>
   loadSession newManager savedVault =
     (Some exampleSession,
      startAutoMaintenance (newManager\<lparr>currentSession := Some exampleSession\<rparr>), savedVault) \<and>
   saveSession_file exampleSession (newFileManager\<lparr>f_eventCallbacks := bothCallbacks\<rparr>) emptyFiles =
     (Inr (), savedFileManager, savedFiles) \<and>
   readFails emptyFiles TOKEN_KEY = False \<and> readFails emptyFiles USER_KEY = False \<and>
   loadSession_file newFileManager savedFiles =
     (Some exampleSession,
      startAutoMaintenance_file (newFileManager\<lparr>f_currentSession := Some exampleSession\<rparr>),
      savedFiles)"
proof -
  have tok: "access_token (token exampleSession) \<noteq> []"
    by (simp add: exampleSession_def exampleToken_def)
  have saved: "saveSession exampleSession (newManager\<lparr>eventCallbacks := allCallbacks\<rparr>) emptyVault =
     (Inr (), savedManager, savedVault)"
    using tok by (simp add: savedManager_def savedVault_def saveSession_result emptyVault_def)
  have savedf:
    "saveSession_file exampleSession (newFileManager\<lparr>f_eventCallbacks := bothCallbacks\<rparr>) emptyFiles =
     (Inr (), savedFileManager, savedFiles)"
    by (simp add: savedFileManager_def savedFiles_def saveSession_file_result emptyFiles_def)
  have reads: "getFails emptyVault TOKEN_KEY = False \<and> getFails emptyVault USER_KEY = False \<and>
     readFails emptyFiles TOKEN_KEY = False \<and> readFails emptyFiles USER_KEY = False"
    by (simp add: emptyVault_def emptyFiles_def)
  have wf: "0 < createdAt exampleSession \<and> createdAt exampleSession \<le> lastValidatedAt exampleSession \<and>
     expiresAt exampleSession = None"
    by (simp add: exampleSession_def)
  have same: "exampleSession\<lparr>expiresAt := None\<rparr> = exampleSession"
    by (simp add: exampleSession_def)
  from save_then_load[of exampleSession
         "newManager\<lparr>eventCallbacks := allCallbacks\<rparr>" emptyVault savedManager savedVault
         "newFileManager\<lparr>f_eventCallbacks := bothCallbacks\<rparr>" emptyFiles savedFileManager savedFiles]
    tok saved savedf reads wf
  show ?thesis by (simp add: same)
qed

text \<open>
  Claim C10 (\<open>saveSession\<close> is atomic for the manager when a write to the vault throws).
  Whatever \<open>saveSession(session)\<close> returns: if either write to the vault throws, be it the
  vault's failure or its refusal of an empty token, it raises the persist error and the
  manager is exactly as before, so \<open>currentSession\<close> keeps its value and no timer was
  stopped or started; if both writes succeed, it returns normally and the manager is the old
  one with \<open>currentSession\<close> assigned and maintenance started afterwards.
\<close>

theorem saveSession_atomic_on_failure:
  assumes "saveSession session m kc = (r, m', kc')"
  shows "(setFails kc TOKEN_KEY \<or> setFails kc USER_KEY \<or> access_token (token session) = [] \<longrightarrow>
            (\<exists>e. r = Inl (SaveSessionFailed e)) \<and> m' = m) \<and>
         (\<not> setFails kc TOKEN_KEY \<and> \<not> setFails kc USER_KEY \<and> access_token (token session) \<noteq> [] \<longrightarrow>
            r = Inr () \<and> m' = startAutoMaintenance (m\<lparr>currentSession := Some session\<rparr>)) \<and>
         (\<forall>e. setPassword kc SERVICE_NAME TOKEN_KEY (Raw (access_token (token session))) = Inl e \<longrightarrow>
            r = Inl (SaveSessionFailed e) \<and> m' = m \<and> kc' = kc) \<and>
         (\<forall>kc1 e. setPassword kc SERVICE_NAME TOKEN_KEY (Raw (access_token (token session))) = Inr kc1 \<and>
            setPassword kc1 SERVICE_NAME USER_KEY (JsonText (sessionDataOf session)) = Inl e \<longrightarrow>
            r = Inl (SaveSessionFailed e) \<and> m' = m \<and> kc' = kc1)"
  using assms by (auto simp: saveSession_def split: sum.splits) (auto simp: setPassword_def split: if_splits)

text \<open>The theorem on a vault that accepts the token and refuses the metadata.\<close>

theorem saveSession_atomic_on_failure_witness:
  "saveSession exampleSession savedManager readOnlyMetadataVault =
     (Inl (SaveSessionFailed (KeytarError USER_KEY)), savedManager,
      readOnlyMetadataVault\<lparr>entries := (entries readOnlyMetadataVault)
         ((SERVICE_NAME, TOKEN_KEY) \<mapsto> Raw (access_token (token exampleSession)))\<rparr>) \<and>
   setFails readOnlyMetadataVault USER_KEY \<and>
   currentSession savedManager = Some exampleSession \<and> validationTimer savedManager = Some 0"
proof -
  have tok: "access_token (token exampleSession) \<noteq> []"
    by (simp add: exampleSession_def exampleToken_def)
  have run: "saveSession exampleSession savedManager readOnlyMetadataVault =
     (Inl (SaveSessionFailed (KeytarError USER_KEY)), savedManager,
      readOnlyMetadataVault\<lparr>entries := (entries readOnlyMetadataVault)
         ((SERVICE_NAME, TOKEN_KEY) \<mapsto> Raw (access_token (token exampleSession)))\<rparr>)"
    using tok by (simp add: saveSession_result readOnlyMetadataVault_def emptyVault_def keys_distinct)
  have h: "setFails readOnlyMetadataVault USER_KEY"
    by (simp add: readOnlyMetadataVault_def)
  have t: "validationTimer savedManager = Some 0"
    using tok
    by (simp add: savedManager_def saveSession_result emptyVault_def startAutoMaintenance_def
        stopAutoMaintenance_def newManager_def Let_def)
  from saveSession_atomic_on_failure[OF run] run h t savedManager_fields(1)
  show ?thesis by simp
qed

section \<open>The access token and the metadata slot\<close>

lemma sessionDataOf_ignores_access_token:
  "sessionDataOf (withAccessToken t s) = sessionDataOf s"
  "sessionDataOf_file (withAccessToken t s) = sessionDataOf_file s"
  by (simp_all add: sessionDataOf_def sessionDataOf_file_def withAccessToken_def)

lemma withAccessToken_token: "access_token (token (withAccessToken t s)) = t"
  by (simp add: withAccessToken_def)

text \<open>
  Claim C8 (token secrecy in metadata). The store is written by \<open>saveSession\<close> and
  \<open>updateSessionData\<close> of either variant and by nothing else. After each of them every key
  other than the token key holds what it held, but for the metadata key, which may hold the
  document of the session instead; \<open>updateSessionData\<close> leaves the token key alone too. That
  document is the same for two sessions that differ in the access token only: it is made of
  the user snapshot, \<open>token_type\<close>, \<open>scope\<close> and the timestamps. So, for two such sessions
  with a token each, every key other than the token key holds the same after the one was
  saved as after the other. The token key holds what it held or the raw access token.
\<close>

theorem access_token_not_in_metadata:
  "(\<forall>k. k \<noteq> (SERVICE_NAME, TOKEN_KEY) \<longrightarrow>
      entries (snd (snd (saveSession s m kc))) k
        = (if k = (SERVICE_NAME, USER_KEY) \<and> fst (saveSession s m kc) = Inr ()
           then Some (JsonText (sessionDataOf s)) else entries kc k)) \<and>
   (\<forall>k. entries (updateSessionData s kc) k
        = (if k = (SERVICE_NAME, USER_KEY) \<and> \<not> setFails kc USER_KEY
           then Some (JsonText (sessionDataOf s)) else entries kc k)) \<and>
   (\<forall>k. k \<noteq> TOKEN_KEY \<longrightarrow>
      files (snd (snd (saveSession_file s fm fs))) k
        = (if k = USER_KEY \<and> fst (saveSession_file s fm fs) = Inr ()
           then Some (JsonText (sessionDataOf_file s)) else files fs k)) \<and>
   (\<forall>k. files (updateSessionData_file (fm\<lparr>f_currentSession := Some s\<rparr>) fs) k
        = (if k = USER_KEY \<and> \<not> writeFails fs USER_KEY
           then Some (JsonText (sessionDataOf_file s)) else files fs k)) \<and>
   sessionDataOf (withAccessToken t s) = sessionDataOf s \<and>
   sessionDataOf_file (withAccessToken t s) = sessionDataOf_file s \<and>
   sd_token (sessionDataOf s) =
     \<lparr>meta_token_type = token_type (token s), meta_scope = scope (token s)\<rparr> \<and>
   (\<forall>k. k \<noteq> (SERVICE_NAME, TOKEN_KEY) \<and> t \<noteq> [] \<and> access_token (token s) \<noteq> [] \<longrightarrow>
      entries (snd (snd (saveSession (withAccessToken t s) m kc))) k =
        entries (snd (snd (saveSession s m kc))) k) \<and>
   entries (updateSessionData (withAccessToken t s) kc) = entries (updateSessionData s kc) \<and>
   (\<forall>k. k \<noteq> TOKEN_KEY \<longrightarrow>
      files (snd (snd (saveSession_file (withAccessToken t s) fm fs))) k =
        files (snd (snd (saveSession_file s fm fs))) k) \<and>
   files (updateSessionData_file (fm\<lparr>f_currentSession := Some (withAccessToken t s)\<rparr>) fs) =
     files (updateSessionData_file (fm\<lparr>f_currentSession := Some s\<rparr>) fs) \<and>
   entries (snd (snd (saveSession s m kc))) (SERVICE_NAME, TOKEN_KEY)
     \<in> {entries kc (SERVICE_NAME, TOKEN_KEY), Some (Raw (access_token (token s)))} \<and>
   files (snd (snd (saveSession_file s fm fs))) TOKEN_KEY
     \<in> {files fs TOKEN_KEY, Some (Raw (access_token (token s)))}"
proof -
  have doc: "sd_token (sessionDataOf s) =
     \<lparr>meta_token_type = token_type (token s), meta_scope = scope (token s)\<rparr>"
    by (simp add: sessionDataOf_def)
  have a1: "entries (snd (snd (saveSession s m kc))) k
        = (if k = (SERVICE_NAME, USER_KEY) \<and> fst (saveSession s m kc) = Inr ()
           then Some (JsonText (sessionDataOf s)) else entries kc k)"
    if "k \<noteq> (SERVICE_NAME, TOKEN_KEY)" for k
    using that by (simp add: saveSession_result)
  have a2: "entries (updateSessionData s kc) k
        = (if k = (SERVICE_NAME, USER_KEY) \<and> \<not> setFails kc USER_KEY
           then Some (JsonText (sessionDataOf s)) else entries kc k)" for k
    by (simp add: updateSessionData_result)
  have a3: "files (snd (snd (saveSession_file s fm fs))) k
        = (if k = USER_KEY \<and> fst (saveSession_file s fm fs) = Inr ()
           then Some (JsonText (sessionDataOf_file s)) else files fs k)"
    if "k \<noteq> TOKEN_KEY" for k
    using that by (simp add: saveSession_file_result)
  have a4: "files (updateSessionData_file (fm\<lparr>f_currentSession := Some s\<rparr>) fs) k
        = (if k = USER_KEY \<and> \<not> writeFails fs USER_KEY
           then Some (JsonText (sessionDataOf_file s)) else files fs k)" for k
    by (simp add: updateSessionData_result)
  have b1: "entries (snd (snd (saveSession (withAccessToken t s) m kc))) k =
        entries (snd (snd (saveSession s m kc))) k"
    if "k \<noteq> (SERVICE_NAME, TOKEN_KEY) \<and> t \<noteq> [] \<and> access_token (token s) \<noteq> []" for k
    using that
    by (simp add: saveSession_result sessionDataOf_ignores_access_token withAccessToken_token)
  have b2: "entries (updateSessionData (withAccessToken t s) kc) = entries (updateSessionData s kc)"
    by (simp add: updateSessionData_result sessionDataOf_ignores_access_token)
  have b3: "files (snd (snd (saveSession_file (withAccessToken t s) fm fs))) k =
        files (snd (snd (saveSession_file s fm fs))) k"
    if "k \<noteq> TOKEN_KEY" for k
    using that
    by (simp add: saveSession_file_result sessionDataOf_ignores_access_token)
  have b4: "files (updateSessionData_file (fm\<lparr>f_currentSession := Some (withAccessToken t s)\<rparr>) fs) =
     files (updateSessionData_file (fm\<lparr>f_currentSession := Some s\<rparr>) fs)"
    by (simp add: updateSessionData_result sessionDataOf_ignores_access_token)
  have c: "entries (snd (snd (saveSession s m kc))) (SERVICE_NAME, TOKEN_KEY)
       \<in> {entries kc (SERVICE_NAME, TOKEN_KEY), Some (Raw (access_token (token s)))}"
    "files (snd (snd (saveSession_file s fm fs))) TOKEN_KEY
       \<in> {files fs TOKEN_KEY, Some (Raw (access_token (token s)))}"
    by (simp_all add: saveSession_result saveSession_file_result keys_distinct)
  show ?thesis
    using doc a1 a2 a3 a4 b1 b2 b3 b4 c sessionDataOf_ignores_access_token[of t s] by blast
qed

text \<open>
  The theorem at the example session and the same session with another token, saved to the
  empty vault and the empty store, read at a third key and at the metadata key.
\<close>

theorem access_token_not_in_metadata_witness:
  "(SERVICE_NAME, ''notes'') \<noteq> (SERVICE_NAME, TOKEN_KEY) \<and> ''notes'' \<noteq> TOKEN_KEY \<and>
   (SERVICE_NAME, USER_KEY) \<noteq> (SERVICE_NAME, TOKEN_KEY) \<and> USER_KEY \<noteq> TOKEN_KEY \<and>
   ''tok_2'' \<noteq> [] \<and> access_token (token exampleSession) \<noteq> [] \<and>
   entries (snd (snd (saveSession exampleSession newManager emptyVault))) (SERVICE_NAME, ''notes'')
     = None \<and>
   entries (snd (snd (saveSession exampleSession newManager emptyVault))) (SERVICE_NAME, USER_KEY)
     = Some (JsonText (sessionDataOf exampleSession)) \<and>
   entries (snd (snd (saveSession (withAccessToken ''tok_2'' exampleSession) newManager emptyVault)))
       (SERVICE_NAME, USER_KEY)
     = Some (JsonText (sessionDataOf exampleSession)) \<and>
   files (snd (snd (saveSession_file exampleSession newFileManager emptyFiles))) ''notes'' = None \<and>
   files (snd (snd (saveSession_file (withAccessToken ''tok_2'' exampleSession)
                      newFileManager emptyFiles))) USER_KEY
     = Some (JsonText (sessionDataOf_file exampleSession))"
proof -
  have tok: "access_token (token exampleSession) \<noteq> []"
    by (simp add: exampleSession_def exampleToken_def)
  have k: "(SERVICE_NAME, ''notes'') \<noteq> (SERVICE_NAME, TOKEN_KEY) \<and> ''notes'' \<noteq> TOKEN_KEY \<and>
     (SERVICE_NAME, USER_KEY) \<noteq> (SERVICE_NAME, TOKEN_KEY) \<and> USER_KEY \<noteq> TOKEN_KEY \<and>
     (SERVICE_NAME, ''notes'') \<noteq> (SERVICE_NAME, USER_KEY) \<and> ''notes'' \<noteq> USER_KEY"
    by (simp add: TOKEN_KEY_def USER_KEY_def)
  have ok: "fst (saveSession exampleSession newManager emptyVault) = Inr ()"
    "fst (saveSession_file exampleSession newFileManager emptyFiles) = Inr ()"
    using tok by (simp_all add: saveSession_result saveSession_file_result emptyVault_def
        emptyFiles_def)
  have e: "entries emptyVault = (\<lambda>k. None)" "files emptyFiles = (\<lambda>k. None)"
    by (simp_all add: emptyVault_def emptyFiles_def)
  note T = access_token_not_in_metadata[of exampleSession newManager emptyVault newFileManager
      emptyFiles "''tok_2''"]
  from T have
    "entries (snd (snd (saveSession exampleSession newManager emptyVault))) (SERVICE_NAME, ''notes'')
       = None"
    "entries (snd (snd (saveSession exampleSession newManager emptyVault))) (SERVICE_NAME, USER_KEY)
       = Some (JsonText (sessionDataOf exampleSession))"
    "entries (snd (snd (saveSession (withAccessToken ''tok_2'' exampleSession) newManager emptyVault)))
         (SERVICE_NAME, USER_KEY)
       = Some (JsonText (sessionDataOf exampleSession))"
    "files (snd (snd (saveSession_file exampleSession newFileManager emptyFiles))) ''notes'' = None"
    "files (snd (snd (saveSession_file (withAccessToken ''tok_2'' exampleSession)
                      newFileManager emptyFiles))) USER_KEY
       = Some (JsonText (sessionDataOf_file exampleSession))"
    using k ok e tok by (simp_all add: keys_distinct)
  with k tok show ?thesis by simp
qed

section \<open>The complete profile\<close>

text \<open>
  Claim C9 (e-mail failures never fail the complete profile). \<open>getCompleteUserProfile\<close>
  fails exactly when \<open>getUserInfo\<close> fails, with its error. When \<open>getUserInfo\<close> succeeds with
  an empty e-mail field, the result is the profile with what \<open>getPrimaryEmail\<close> found; and
  when the e-mail list call fails, \<open>getPrimaryEmail\<close> is null and the result is the profile
  without a primary e-mail.
\<close>

theorem complete_profile_fails_only_with_getUserInfo:
  "(getCompleteUserProfile net t = Inl e \<longleftrightarrow> getUserInfo net t = Inl e) \<and>
   (\<forall>u. getUserInfo net t = Inr u \<and> \<not> truthy (email u) \<longrightarrow>
      getCompleteUserProfile net t = Inr (withPrimaryEmail u (orUndefined (getPrimaryEmail net t))) \<and>
      (\<forall>e'. getUserEmails net t = Inl e' \<longrightarrow>
         getPrimaryEmail net t = None \<and> getCompleteUserProfile net t = Inr (withPrimaryEmail u None)))"
  by (auto simp: getCompleteUserProfile_def getPrimaryEmail_def orUndefined_def split: sum.splits)

text \<open>The theorem with a provider whose e-mail list answers 503.\<close>

theorem complete_profile_witness:
  "getUserInfo emailsDown ''tok_1'' = Inr octocat \<and> \<not> truthy (email octocat) \<and>
   getUserEmails emailsDown ''tok_1'' = Inl (GetUserEmailsFailed (HttpStatus 503 ''unavailable'')) \<and>
   getPrimaryEmail emailsDown ''tok_1'' = None \<and>
   getCompleteUserProfile emailsDown ''tok_1'' = Inr octocatProfile"
proof -
  have u: "getUserInfo emailsDown ''tok_1'' = Inr octocat"
    by (simp add: getUserInfo_def emailsDown_def online_def)
  have noEmail: "\<not> truthy (email octocat)"
    by (simp add: octocat_def)
  have down: "getUserEmails emailsDown ''tok_1'' =
      Inl (GetUserEmailsFailed (HttpStatus 503 ''unavailable''))"
    by (simp add: getUserEmails_def emailsDown_def)
  have same: "withPrimaryEmail octocat None = octocatProfile"
    by (simp add: withPrimaryEmail_def octocat_def octocatProfile_def GitHubUser.defs profile.defs)
  from complete_profile_fails_only_with_getUserInfo[of emailsDown "''tok_1''" "NoAccessToken"]
    u noEmail down same
  show ?thesis by auto
qed

end
